theory Spec2Isabelle
  imports Main "HOL-Library.Sublist" "HOL-Library.AList"
begin

section \<open>Strings and JavaScript primitives\<close>

text \<open>
  Strings are \<^typ>\<open>string\<close>, one \<^typ>\<open>char\<close> per code unit (the 8-bit range).
  A value of type \<open>string | undefined\<close> is a \<^typ>\<open>string option\<close>; in a condition
  JavaScript takes \<open>undefined\<close> and the empty string as false.
\<close>

fun truthy :: "string option \<Rightarrow> bool" where
  "truthy None = False"
| "truthy (Some s) = (s \<noteq> [])"

text \<open>
  \<open>String.prototype.toLowerCase\<close> on the 8-bit range: the letters \<open>A\<close> to \<open>Z\<close> and the
  capital letters from \<open>0xC0\<close> to \<open>0xDE\<close> (without \<open>0xD7\<close>) go to their small letters,
  every other character is kept.
\<close>

definition upperChars :: "char list" where
  "upperChars =
     ''ABCDEFGHIJKLMNOPQRSTUVWXYZ'' @
     [CHR 0xC0, CHR 0xC1, CHR 0xC2, CHR 0xC3, CHR 0xC4, CHR 0xC5, CHR 0xC6,
     CHR 0xC7, CHR 0xC8, CHR 0xC9, CHR 0xCA, CHR 0xCB, CHR 0xCC, CHR 0xCD, CHR 0xCE,
     CHR 0xCF, CHR 0xD0, CHR 0xD1, CHR 0xD2, CHR 0xD3, CHR 0xD4, CHR 0xD5, CHR 0xD6,
     CHR 0xD8, CHR 0xD9, CHR 0xDA, CHR 0xDB, CHR 0xDC, CHR 0xDD, CHR 0xDE]"

definition lowerChars :: "char list" where
  "lowerChars =
     ''abcdefghijklmnopqrstuvwxyz'' @
     [CHR 0xE0, CHR 0xE1, CHR 0xE2, CHR 0xE3, CHR 0xE4, CHR 0xE5, CHR 0xE6,
     CHR 0xE7, CHR 0xE8, CHR 0xE9, CHR 0xEA, CHR 0xEB, CHR 0xEC, CHR 0xED, CHR 0xEE,
     CHR 0xEF, CHR 0xF0, CHR 0xF1, CHR 0xF2, CHR 0xF3, CHR 0xF4, CHR 0xF5, CHR 0xF6,
     CHR 0xF8, CHR 0xF9, CHR 0xFA, CHR 0xFB, CHR 0xFC, CHR 0xFD, CHR 0xFE]"

definition toLowerChar :: "char \<Rightarrow> char" where
  "toLowerChar c =
     (case map_of (zip upperChars lowerChars) c of
        Some l \<Rightarrow> l
      | None \<Rightarrow> c)"

definition toLowerCase :: "string \<Rightarrow> string" where
  "toLowerCase s = map toLowerChar s"

text \<open>\<open>s.includes(p)\<close>: \<open>p\<close> occurs in \<open>s\<close> as a contiguous run.\<close>

definition str_includes :: "string \<Rightarrow> string \<Rightarrow> bool" where
  "str_includes s p = sublist p s"

text \<open>\<open>s.substr(start, len)\<close> for non-negative arguments.\<close>

definition substr :: "nat \<Rightarrow> nat \<Rightarrow> string \<Rightarrow> string" where
  "substr start len s = take len (drop start s)"

text \<open>\<open>String.prototype.trim\<close>: white space and line terminators of the 8-bit range.\<close>

definition isSpace :: "char \<Rightarrow> bool" where
  "isSpace c = (c \<in> set [CHR '' '', CHR 0x09, CHR 0x0A, CHR 0x0B, CHR 0x0C, CHR 0x0D, CHR 0xA0])"

definition trim :: "string \<Rightarrow> string" where
  "trim s = rev (dropWhile isSpace (rev (dropWhile isSpace s)))"

text \<open>Decimal rendering of a non-negative integer inside a template literal.\<close>

definition digitChar :: "nat \<Rightarrow> char" where
  "digitChar d = ''0123456789'' ! d"

fun decimal :: "nat \<Rightarrow> string" where
  "decimal n =
     (if n < 10 then [digitChar n]
      else decimal (n div 10) @ [digitChar (n mod 10)])"

declare decimal.simps [simp del]

text \<open>\<open>Array.prototype.findIndex\<close>, with \<open>None\<close> for the result \<open>-1\<close>.\<close>

fun findIndex :: "('a \<Rightarrow> bool) \<Rightarrow> 'a list \<Rightarrow> nat option" where
  "findIndex P [] = None"
| "findIndex P (x # xs) =
     (if P x then Some 0 else map_option Suc (findIndex P xs))"

text \<open>\<open>xs.splice(index, 1)\<close>: the element at \<open>index\<close> is taken out.\<close>

definition splice1 :: "nat \<Rightarrow> 'a list \<Rightarrow> 'a list" where
  "splice1 index xs = take index xs @ drop (Suc index) xs"


section \<open>Data model (types)\<close>

datatype AuthType = SSH | PAT

text \<open>
  \<open>GitAccount\<close> is \<open>AccountFields\<close> (the type \<open>Omit<GitAccount, 'id'>\<close> of a draft) extended
  by the field \<open>id\<close>, here \<open>acct_id\<close>. The record has no field that holds a token.
\<close>

record AccountFields =
  name :: string
  username :: string
  email :: string
  authType :: AuthType
  sshKeyPath :: "string option"
  sshHost :: "string option"

record GitAccount = AccountFields +
  acct_id :: string

record RepoMapping =
  repoPath :: string
  accountId :: string
  remotePattern :: "string option"

text \<open>\<open>GitAccountConfig\<close>, the content of a \<open>.gitaccount\<close> file: fields \<open>accountId\<close> and \<open>accountName\<close>.\<close>

record GitAccountConfig =
  cfg_accountId :: "string option"
  cfg_accountName :: "string option"

definition PAT_PREFIX :: string where
  "PAT_PREFIX = ''gitManager.pat.''"


section \<open>Secret storage\<close>

text \<open>The editor's secret storage is a store from keys to secrets.\<close>

type_synonym SecretStorage = "string \<rightharpoonup> string"

definition storeToken :: "SecretStorage \<Rightarrow> string \<Rightarrow> string \<Rightarrow> SecretStorage" where
  "storeToken st accountId' token = st(PAT_PREFIX @ accountId' \<mapsto> token)"

definition getToken :: "SecretStorage \<Rightarrow> string \<Rightarrow> string option" where
  "getToken st accountId' = st (PAT_PREFIX @ accountId')"

definition deleteToken :: "SecretStorage \<Rightarrow> string \<Rightarrow> SecretStorage" where
  "deleteToken st accountId' = st(PAT_PREFIX @ accountId' := None)"

definition hasToken :: "SecretStorage \<Rightarrow> string \<Rightarrow> bool" where
  "hasToken st accountId' = truthy (getToken st accountId')"


section \<open>Account manager\<close>

text \<open>
  The state of an \<open>AccountManager\<close>: the in-memory collection \<open>accounts\<close>, the copy kept in
  the global state under \<open>STORAGE_KEYS.ACCOUNTS\<close> (written by \<open>saveAccounts\<close>), and the
  secret storage it was given.
\<close>

record AccountManager =
  accounts :: "GitAccount list"
  savedAccounts :: "GitAccount list"
  secretStorage :: SecretStorage

definition saveAccounts :: "AccountManager \<Rightarrow> AccountManager" where
  "saveAccounts m = m\<lparr>savedAccounts := accounts m\<rparr>"

text \<open>
  \<open>generateId\<close> reads the clock and the random generator. Both are inputs here:
  \<open>now\<close> is the value of \<open>Date.now()\<close>, \<open>rnd\<close> the text \<open>Math.random().toString(36)\<close>.
\<close>

definition generateId :: "nat \<Rightarrow> string \<Rightarrow> string" where
  "generateId now rnd = ''account_'' @ decimal now @ ''_'' @ substr 2 9 rnd"

text \<open>The object \<open>{...account, id}\<close>.\<close>

definition withId :: "AccountFields \<Rightarrow> string \<Rightarrow> GitAccount" where
  "withId account i =
     \<lparr>name = name account, username = username account, email = email account,
      authType = authType account, sshKeyPath = sshKeyPath account,
      sshHost = sshHost account, acct_id = i\<rparr>"

definition addAccount ::
  "AccountManager \<Rightarrow> AccountFields \<Rightarrow> string option \<Rightarrow> nat \<Rightarrow> string \<Rightarrow> GitAccount \<times> AccountManager"
where
  "addAccount m account pat now rnd =
     (let newAccount = withId account (generateId now rnd);
          m1 = saveAccounts (m\<lparr>accounts := accounts m @ [newAccount]\<rparr>);
          m2 = (case pat of
                  Some token \<Rightarrow>
                    if token \<noteq> [] \<and> authType account = PAT
                    then m1\<lparr>secretStorage := storeToken (secretStorage m1) (acct_id newAccount) token\<rparr>
                    else m1
                | None \<Rightarrow> m1)
      in (newAccount, m2))"

definition removeAccount :: "AccountManager \<Rightarrow> string \<Rightarrow> bool \<times> AccountManager" where
  "removeAccount m i =
     (case findIndex (\<lambda>acc. acct_id acc = i) (accounts m) of
        None \<Rightarrow> (False, m)
      | Some index \<Rightarrow>
          (let account = accounts m ! index;
               m1 = saveAccounts (m\<lparr>accounts := splice1 index (accounts m)\<rparr>);
               m2 = (if authType account = PAT
                     then m1\<lparr>secretStorage := deleteToken (secretStorage m1) i\<rparr>
                     else m1)
           in (True, m2)))"

definition getAccounts :: "AccountManager \<Rightarrow> GitAccount list" where
  "getAccounts m = accounts m"

definition getAccountById :: "AccountManager \<Rightarrow> string \<Rightarrow> GitAccount option" where
  "getAccountById m i = find (\<lambda>acc. acct_id acc = i) (accounts m)"

definition getAccountByName :: "AccountManager \<Rightarrow> string \<Rightarrow> GitAccount option" where
  "getAccountByName m n = find (\<lambda>acc. toLowerCase (name acc) = toLowerCase n) (accounts m)"

text \<open>
  \<open>Partial<Omit<GitAccount, 'id'>>\<close>: each field is given or left out; the two optional
  fields can also be given as \<open>undefined\<close>.
\<close>

record AccountUpdates =
  upd_name :: "string option"
  upd_username :: "string option"
  upd_email :: "string option"
  upd_authType :: "AuthType option"
  upd_sshKeyPath :: "string option option"
  upd_sshHost :: "string option option"

text \<open>\<open>Object.assign(account, updates)\<close>.\<close>

definition assign :: "GitAccount \<Rightarrow> AccountUpdates \<Rightarrow> GitAccount" where
  "assign account updates =
     account\<lparr>name := (case upd_name updates of Some v \<Rightarrow> v | None \<Rightarrow> name account),
             username := (case upd_username updates of Some v \<Rightarrow> v | None \<Rightarrow> username account),
             email := (case upd_email updates of Some v \<Rightarrow> v | None \<Rightarrow> email account),
             authType := (case upd_authType updates of Some v \<Rightarrow> v | None \<Rightarrow> authType account),
             sshKeyPath := (case upd_sshKeyPath updates of Some v \<Rightarrow> v | None \<Rightarrow> sshKeyPath account),
             sshHost := (case upd_sshHost updates of Some v \<Rightarrow> v | None \<Rightarrow> sshHost account)\<rparr>"

text \<open>The account found is an element of the collection and is changed in place.\<close>

definition updateAccount :: "AccountManager \<Rightarrow> string \<Rightarrow> AccountUpdates \<Rightarrow> bool \<times> AccountManager" where
  "updateAccount m i updates =
     (case findIndex (\<lambda>acc. acct_id acc = i) (accounts m) of
        None \<Rightarrow> (False, m)
      | Some index \<Rightarrow>
          (True, saveAccounts (m\<lparr>accounts := (accounts m)[index := assign (accounts m ! index) updates]\<rparr>)))"

text \<open>
  The check of the name field in the add-account command (\<open>validateInput\<close> of the first
  input box): a message when the name is refused, \<open>None\<close> when it is accepted.
\<close>

definition validateName :: "AccountManager \<Rightarrow> string \<Rightarrow> string option" where
  "validateName m v =
     (if trim v = [] then Some ''Name is required''
      else if getAccountByName m v \<noteq> None then Some ''An account with this name already exists''
      else None)"


section \<open>Repository mapping service\<close>

text \<open>
  What a \<open>.gitaccount\<close> file can hold: \<open>Unreadable\<close> when \<open>readFileSync\<close> throws,
  \<open>Malformed\<close> when \<open>JSON.parse\<close> throws, and \<open>Parsed cfg\<close> for a text that
  \<open>JSON.parse\<close> reads as the object \<open>cfg\<close>, taken at the type \<open>GitAccountConfig\<close> that the
  source gives it. \<open>JSON.stringify(cfg, null, 2)\<close> is such a text for \<open>cfg\<close>.
\<close>

datatype file_content = Unreadable | Malformed | Parsed GitAccountConfig

text \<open>
  The service together with what it reaches: the account manager, the map
  \<open>mappings\<close> in insertion order (a JavaScript \<open>Map\<close>), for each repository path the
  trimmed output of \<open>git config --get remote.origin.url\<close> (\<open>None\<close> when git fails), and
  for each repository path the file \<open>.gitaccount\<close> in its root (\<open>None\<close> when there is none).
  Writing a file is taken to succeed.

  \<open>execGit\<close> hands the text \<open>git\<close> followed by the arguments, joined by blanks and not
  quoted, to a shell. The field \<open>shell\<close> stands for the shell and git where the model does
  not read the command line itself: for a command line that sets the remote URL, the
  working directory and the remote URL at that moment it gives the text of the failure
  (\<open>Inl\<close>) or the remote URL afterwards (\<open>Inr\<close>).
\<close>

record World =
  manager :: AccountManager
  mappings :: "(string \<times> RepoMapping) list"
  remoteUrls :: "string \<rightharpoonup> string"
  gitaccountFiles :: "string \<rightharpoonup> file_content"
  shell :: "string \<Rightarrow> string \<Rightarrow> string option \<Rightarrow> string + string option"

text \<open>\<open>Error('Account not found')\<close>, and the error that \<open>execGit\<close> rejects with when git fails.\<close>

datatype error = AccountNotFound | GitFailed string

definition setMapping :: "World \<Rightarrow> string \<Rightarrow> string \<Rightarrow> string option \<Rightarrow> World" where
  "setMapping w repoPath' accountId' remotePattern' =
     w\<lparr>mappings := AList.update repoPath'
          \<lparr>repoPath = repoPath', accountId = accountId', remotePattern = remotePattern'\<rparr>
          (mappings w)\<rparr>"

definition removeMapping :: "World \<Rightarrow> string \<Rightarrow> World" where
  "removeMapping w repoPath' = w\<lparr>mappings := AList.delete repoPath' (mappings w)\<rparr>"

definition getMapping :: "World \<Rightarrow> string \<Rightarrow> RepoMapping option" where
  "getMapping w repoPath' = map_of (mappings w) repoPath'"

definition getRemoteUrl :: "World \<Rightarrow> string \<Rightarrow> string option" where
  "getRemoteUrl w cwd = remoteUrls w cwd"

text \<open>\<open>args.join(' ')\<close>.\<close>

fun joinArgs :: "string list \<Rightarrow> string" where
  "joinArgs [] = []"
| "joinArgs [a] = a"
| "joinArgs (a # b # rest) = a @ '' '' @ joinArgs (b # rest)"

text \<open>The command line of \<open>execGit\<close>.\<close>

definition commandLine :: "string list \<Rightarrow> string" where
  "commandLine args = ''git '' @ joinArgs args"

text \<open>
  The characters that a shell hands on as they are. A non-empty text of such characters
  that does not begin with a hyphen reaches git as one argument, the text itself.
\<close>

definition shellLiteral :: "char list" where
  "shellLiteral =
     ''abcdefghijklmnopqrstuvwxyzABCDEFGHIJKLMNOPQRSTUVWXYZ0123456789@:/._-+''"

definition shellWord :: "string \<Rightarrow> bool" where
  "shellWord s \<longleftrightarrow> s \<noteq> [] \<and> list_all (\<lambda>c. c \<in> set shellLiteral) s \<and> take 1 s \<noteq> ''-''"

text \<open>
  \<open>execGit(['remote', 'set-url', 'origin', url], cwd)\<close>. When the URL is one literal
  argument and the remote has a URL, git sets the URL of the remote to it. For any other
  URL (a blank or a shell metacharacter in it) and for a repository without the remote,
  the outcome is the one of the shell and git on the command line.
\<close>

definition setRemoteUrl :: "World \<Rightarrow> string \<Rightarrow> string \<Rightarrow> (error + unit) \<times> World" where
  "setRemoteUrl w url cwd =
     (if shellWord url \<and> remoteUrls w cwd \<noteq> None
      then (Inr (), w\<lparr>remoteUrls := (remoteUrls w)(cwd \<mapsto> url)\<rparr>)
      else (case shell w (commandLine [''remote'', ''set-url'', ''origin'', url]) cwd
                   (remoteUrls w cwd) of
              Inl stderr \<Rightarrow> (Inl (GitFailed stderr), w)
            | Inr remote' \<Rightarrow> (Inr (), w\<lparr>remoteUrls := (remoteUrls w)(cwd := remote')\<rparr>)))"

definition readGitAccountFile :: "World \<Rightarrow> string \<Rightarrow> GitAccountConfig option" where
  "readGitAccountFile w repoPath' =
     (case gitaccountFiles w repoPath' of
        None \<Rightarrow> None
      | Some Unreadable \<Rightarrow> None
      | Some Malformed \<Rightarrow> None
      | Some (Parsed cfg) \<Rightarrow> Some cfg)"

text \<open>The loop over \<open>this.mappings\<close> with its early return.\<close>

fun scanMappings :: "string \<Rightarrow> (string \<times> RepoMapping) list \<Rightarrow> string option" where
  "scanMappings remoteUrl [] = None"
| "scanMappings remoteUrl ((k, mapping) # rest) =
     (if (case remotePattern mapping of
            Some pat \<Rightarrow> pat \<noteq> [] \<and> str_includes remoteUrl pat
          | None \<Rightarrow> False)
      then Some (accountId mapping)
      else scanMappings remoteUrl rest)"

definition detectAccountForRepo :: "World \<Rightarrow> string \<Rightarrow> string option" where
  "detectAccountForRepo w repoPath' =
     (let fileConfig = readGitAccountFile w repoPath';
          byId = (case fileConfig of
                    None \<Rightarrow> None
                  | Some cfg \<Rightarrow>
                      (case cfg_accountId cfg of
                         None \<Rightarrow> None
                       | Some i \<Rightarrow> if i \<noteq> [] then getAccountById (manager w) i else None));
          byName = (case fileConfig of
                      None \<Rightarrow> None
                    | Some cfg \<Rightarrow>
                        (case cfg_accountName cfg of
                           None \<Rightarrow> None
                         | Some n \<Rightarrow> if n \<noteq> [] then getAccountByName (manager w) n else None))
      in case byId of
           Some account \<Rightarrow> Some (acct_id account)
         | None \<Rightarrow>
             (case byName of
                Some account \<Rightarrow> Some (acct_id account)
              | None \<Rightarrow>
                  (case (case getRemoteUrl w repoPath' of
                           None \<Rightarrow> None
                         | Some remoteUrl \<Rightarrow>
                             if remoteUrl \<noteq> [] then scanMappings remoteUrl (mappings w) else None) of
                     Some i \<Rightarrow> Some i
                   | None \<Rightarrow>
                       (case map_of (mappings w) repoPath' of
                          Some directMapping \<Rightarrow> Some (accountId directMapping)
                        | None \<Rightarrow> None))))"

definition writeGitAccountFile :: "World \<Rightarrow> string \<Rightarrow> string \<Rightarrow> (error + unit) \<times> World" where
  "writeGitAccountFile w repoPath' accountId' =
     (case getAccountById (manager w) accountId' of
        None \<Rightarrow> (Inl AccountNotFound, w)
      | Some account \<Rightarrow>
          (Inr (),
           w\<lparr>gitaccountFiles := (gitaccountFiles w)
                (repoPath' \<mapsto> Parsed \<lparr>cfg_accountId = Some (acct_id account),
                                       cfg_accountName = Some (name account)\<rparr>)\<rparr>))"


section \<open>Git service\<close>

definition newline :: char where
  "newline = CHR 0x0A"

text \<open>The characters that \<open>.\<close> of a regular expression does not match.\<close>

definition lineTerminator :: "char \<Rightarrow> bool" where
  "lineTerminator c = (c = CHR 0x0A \<or> c = CHR 0x0D)"

text \<open>
  \<open>currentUrl.match(/^git@([^:]+):(.+)$/)\<close>: the two groups of the match, or \<open>None\<close>.
  The first group cannot hold a colon and is followed by one, so it ends at the first
  colon after \<open>git@\<close>; the second group runs to the end of the text.
\<close>

definition matchSshUrl :: "string \<Rightarrow> (string \<times> string) option" where
  "matchSshUrl url =
     (if take 4 url = ''git@''
      then (let rest = drop 4 url;
                host = takeWhile (\<lambda>c. c \<noteq> CHR '':'') rest;
                tail = dropWhile (\<lambda>c. c \<noteq> CHR '':'') rest
            in case tail of
                 [] \<Rightarrow> None
               | colon # path \<Rightarrow>
                   if host \<noteq> [] \<and> path \<noteq> [] \<and> list_all (\<lambda>c. \<not> lineTerminator c) path
                   then Some (host, path)
                   else None)
      else None)"

definition configureSSHForAccount :: "World \<Rightarrow> GitAccount \<Rightarrow> string \<Rightarrow> (error + unit) \<times> World" where
  "configureSSHForAccount w account cwd =
     (case sshHost account of
        None \<Rightarrow> (Inr (), w)
      | Some host \<Rightarrow>
          if authType account \<noteq> SSH \<or> host = [] then (Inr (), w)
          else (case getRemoteUrl w cwd of
                  None \<Rightarrow> (Inr (), w)
                | Some currentUrl \<Rightarrow>
                    if currentUrl = [] then (Inr (), w)
                    else (case matchSshUrl currentUrl of
                            Some (g1, g2) \<Rightarrow> setRemoteUrl w (''git@'' @ host @ '':'' @ g2) cwd
                          | None \<Rightarrow> (Inr (), w))))"

text \<open>
  The SSH directory of the user and the file \<open>config\<close> in it (\<open>None\<close> when the file does not
  exist, in which case reading it throws and appending to it creates it). Creating the
  directory and appending to the file are taken to succeed.
\<close>

record SshFs =
  sshDirExists :: bool
  sshConfigFile :: "string option"

definition isSSHHostConfigured :: "SshFs \<Rightarrow> string \<Rightarrow> bool" where
  "isSSHHostConfigured fs hostAlias =
     (case sshConfigFile fs of
        None \<Rightarrow> False
      | Some content \<Rightarrow> str_includes content (''Host '' @ hostAlias))"

definition generateSSHConfigEntry :: "GitAccount \<Rightarrow> string" where
  "generateSSHConfigEntry account =
     (case (sshHost account, sshKeyPath account) of
        (Some host, Some keyPath) \<Rightarrow>
          if authType account \<noteq> SSH \<or> host = [] \<or> keyPath = [] then []
          else [newline] @ ''# Git Account Manager - '' @ name account @ [newline]
             @ ''Host '' @ host @ [newline]
             @ ''    HostName github.com'' @ [newline]
             @ ''    User git'' @ [newline]
             @ ''    IdentityFile '' @ keyPath @ [newline]
             @ ''    IdentitiesOnly yes'' @ [newline]
      | _ \<Rightarrow> [])"

definition appendFile :: "SshFs \<Rightarrow> string \<Rightarrow> SshFs" where
  "appendFile fs entry =
     fs\<lparr>sshConfigFile := Some ((case sshConfigFile fs of None \<Rightarrow> [] | Some content \<Rightarrow> content) @ entry)\<rparr>"

definition addSSHConfigEntry :: "SshFs \<Rightarrow> GitAccount \<Rightarrow> SshFs" where
  "addSSHConfigEntry fs account =
     (case sshHost account of
        None \<Rightarrow> fs
      | Some host \<Rightarrow>
          if authType account \<noteq> SSH \<or> host = [] then fs
          else (let entry = generateSSHConfigEntry account
                in if entry = [] then fs
                   else if isSSHHostConfigured fs host then fs
                   else appendFile (if \<not> sshDirExists fs then fs\<lparr>sshDirExists := True\<rparr> else fs) entry))"


section \<open>Notions used in the statements\<close>

subsection \<open>The three detection strategies\<close>

text \<open>The account that the field \<open>accountId\<close> of the \<open>.gitaccount\<close> file resolves to.\<close>

definition namedById :: "World \<Rightarrow> string \<Rightarrow> GitAccount option" where
  "namedById w p =
     (case readGitAccountFile w p of
        None \<Rightarrow> None
      | Some cfg \<Rightarrow>
          (case cfg_accountId cfg of
             None \<Rightarrow> None
           | Some i \<Rightarrow> if i = [] then None else getAccountById (manager w) i))"

text \<open>The account that the field \<open>accountName\<close> of the \<open>.gitaccount\<close> file resolves to.\<close>

definition namedByName :: "World \<Rightarrow> string \<Rightarrow> GitAccount option" where
  "namedByName w p =
     (case readGitAccountFile w p of
        None \<Rightarrow> None
      | Some cfg \<Rightarrow>
          (case cfg_accountName cfg of
             None \<Rightarrow> None
           | Some n \<Rightarrow> if n = [] then None else getAccountByName (manager w) n))"

text \<open>Strategy 1: the id of the account that the file names, by id first and by name second.\<close>

definition fileOverride :: "World \<Rightarrow> string \<Rightarrow> string option" where
  "fileOverride w p =
     (case namedById w p of
        Some a \<Rightarrow> Some (acct_id a)
      | None \<Rightarrow> map_option acct_id (namedByName w p))"

text \<open>A mapping whose pattern is a non-empty part of the remote URL.\<close>

definition patternMatches :: "string \<Rightarrow> RepoMapping \<Rightarrow> bool" where
  "patternMatches u m =
     (case remotePattern m of Some pat \<Rightarrow> pat \<noteq> [] \<and> sublist pat u | None \<Rightarrow> False)"

text \<open>Strategy 2: the account of the first mapping, in the order of the map, whose pattern matches.\<close>

definition remotePatternMatch :: "World \<Rightarrow> string \<Rightarrow> string option" where
  "remotePatternMatch w p =
     (case remoteUrls w p of
        None \<Rightarrow> None
      | Some u \<Rightarrow>
          if u = [] then None
          else map_option accountId (find (patternMatches u) (map snd (mappings w))))"

text \<open>Strategy 3: the account of the mapping stored under the path itself.\<close>

definition directMapping :: "World \<Rightarrow> string \<Rightarrow> string option" where
  "directMapping w p = map_option accountId (map_of (mappings w) p)"

subsection \<open>Host declarations in an SSH configuration\<close>

text \<open>The lines of a text, as \<open>text.split('\n')\<close> gives them.\<close>

fun linesOf :: "string \<Rightarrow> string list" where
  "linesOf [] = [] # []"
| "linesOf (c # cs) =
     (if c = newline then [] # linesOf cs
      else (case linesOf cs of
              [] \<Rightarrow> [c] # []
            | l # ls \<Rightarrow> (c # l) # ls))"

text \<open>The number of lines of the configuration that read \<open>Host <alias>\<close>.\<close>

definition hostBlocks :: "string \<Rightarrow> string \<Rightarrow> nat" where
  "hostBlocks hostAlias content =
     length (filter (\<lambda>l. l = ''Host '' @ hostAlias) (linesOf content))"

text \<open>The text of the configuration file, empty when the file does not exist.\<close>

definition configText :: "SshFs \<Rightarrow> string" where
  "configText fs = (case sshConfigFile fs of None \<Rightarrow> [] | Some content \<Rightarrow> content)"

subsection \<open>The form \<open>git@host:path\<close>\<close>

text \<open>
  A text \<open>git@host:path\<close> with a non-empty host that holds no colon and a non-empty path
  that holds no line terminator.
\<close>

definition gitSshForm :: "string \<Rightarrow> string \<Rightarrow> string \<Rightarrow> bool" where
  "gitSshForm url host path \<longleftrightarrow>
     url = ''git@'' @ host @ '':'' @ path \<and> host \<noteq> [] \<and> CHR '':'' \<notin> set host \<and>
     path \<noteq> [] \<and> list_all (\<lambda>c. \<not> lineTerminator c) path"


section \<open>Example data\<close>

definition work_fields :: AccountFields where
  "work_fields =
     \<lparr>name = ''Work'', username = ''alice'', email = ''alice@co.com'', authType = SSH,
      sshKeyPath = Some ''~/.ssh/id_work'', sshHost = Some ''github.com-work''\<rparr>"

definition personal_fields :: AccountFields where
  "personal_fields =
     \<lparr>name = ''Personal'', username = ''alice-home'', email = ''alice@home.org'', authType = PAT,
      sshKeyPath = None, sshHost = None\<rparr>"

definition work_account :: GitAccount where
  "work_account = withId work_fields ''account_1700000000000_k3j9x2m1q''"

definition personal_account :: GitAccount where
  "personal_account = withId personal_fields ''account_1700000005000_abcdefghi''"

definition example_manager :: AccountManager where
  "example_manager =
     \<lparr>accounts = [work_account, personal_account],
      savedAccounts = [work_account, personal_account],
      secretStorage = [''gitManager.pat.account_1700000005000_abcdefghi'' \<mapsto> ''ghp_example'']\<rparr>"

text \<open>
  A world with a direct mapping of \<open>/repos/app\<close> to the personal account and a mapping of
  another path to the work account by the pattern \<open>github.com:acme/\<close>.
\<close>

definition example_world :: World where
  "example_world =
     \<lparr>manager = example_manager,
      mappings =
        [(''/repos/app'', \<lparr>repoPath = ''/repos/app'',
                            accountId = ''account_1700000005000_abcdefghi'',
                            remotePattern = None\<rparr>),
         (''/repos/lib'', \<lparr>repoPath = ''/repos/lib'',
                            accountId = ''account_1700000000000_k3j9x2m1q'',
                            remotePattern = Some ''github.com:acme/''\<rparr>)],
      remoteUrls = [''/repos/app'' \<mapsto> ''git@github.com:acme/app.git''],
      gitaccountFiles = Map.empty,
      shell = (\<lambda>command cwd remote. Inl ''fatal'')\<rparr>"

text \<open>The example world with a \<open>.gitaccount\<close> file in \<open>/repos/app\<close> that names the work account by id.\<close>

definition example_world_file :: World where
  "example_world_file =
     example_world\<lparr>gitaccountFiles :=
       [''/repos/app'' \<mapsto> Parsed \<lparr>cfg_accountId = Some ''account_1700000000000_k3j9x2m1q'',
                                     cfg_accountName = None\<rparr>]\<rparr>"

text \<open>The same with a file whose id references no account and whose name is \<open>WORK\<close>.\<close>

definition example_world_dangling :: World where
  "example_world_dangling =
     example_world\<lparr>gitaccountFiles :=
       [''/repos/app'' \<mapsto> Parsed \<lparr>cfg_accountId = Some ''account_0_gone'',
                                     cfg_accountName = Some ''WORK''\<rparr>]\<rparr>"

text \<open>
  The example manager after an account has been added while \<open>Date.now()\<close> gave
  \<open>1700000009000\<close> and \<open>Math.random()\<close> gave \<open>0.5\<close>, which \<open>toString(36)\<close> renders as \<open>0.i\<close>;
  and after a second account has been added at the same clock value and draw.
\<close>

definition example_added :: AccountManager where
  "example_added =
     snd (addAccount example_manager work_fields None 1700000009000 ''0.i'')"

definition example_twice :: AccountManager where
  "example_twice =
     snd (addAccount example_added personal_fields None 1700000009000 ''0.i'')"

text \<open>The example world where the remote of \<open>/repos/app\<close> is \<open>git@github.com:alice/project.git\<close>.\<close>

definition example_world_git :: World where
  "example_world_git =
     example_world\<lparr>remoteUrls := [''/repos/app'' \<mapsto> ''git@github.com:alice/project.git'']\<rparr>"

text \<open>The same with the user \<open>alice\<close> in place of \<open>git\<close> in the remote URL.\<close>

definition example_world_alice :: World where
  "example_world_alice =
     example_world\<lparr>remoteUrls := [''/repos/app'' \<mapsto> ''alice@github.com:alice/project.git'']\<rparr>"

text \<open>A user without an SSH directory.\<close>

definition example_ssh :: SshFs where
  "example_ssh = \<lparr>sshDirExists = False, sshConfigFile = None\<rparr>"

text \<open>A user whose SSH configuration declares the host \<open>github.com-work-old\<close>.\<close>

definition example_ssh_old :: SshFs where
  "example_ssh_old =
     \<lparr>sshDirExists = True,
      sshConfigFile = Some (''Host github.com-work-old'' @ [newline] @
                            ''    HostName github.com'' @ [newline])\<rparr>"

text \<open>
  The example world where the path of the remote of \<open>/repos/app\<close> holds a blank, and where
  the shell and git answer the one command line of interest as git does.
\<close>

definition example_world_blank :: World where
  "example_world_blank =
     example_world
       \<lparr>remoteUrls := [''/repos/app'' \<mapsto> ''git@github.com:alice/my project.git''],
        shell := (\<lambda>command cwd remote.
          if command = ''git remote set-url origin git@github.com-work:alice/my project.git''
          then Inr (Some ''git@github.com-work:alice/my'')
          else Inl ''fatal'')\<rparr>"


section \<open>Lemmas about the account manager\<close>

lemma getAccountById_Some_id: "getAccountById m i = Some a \<Longrightarrow> acct_id a = i"
  unfolding getAccountById_def by (auto simp: find_Some_iff)

lemma example_ids:
  "acct_id work_account = ''account_1700000000000_k3j9x2m1q''"
  "acct_id personal_account = ''account_1700000005000_abcdefghi''"
  "name work_account = ''Work''"
  "name personal_account = ''Personal''"
  by (simp_all add: work_account_def personal_account_def withId_def work_fields_def
      personal_fields_def)

lemma example_lookup:
  "getAccountById example_manager ''account_1700000000000_k3j9x2m1q'' = Some work_account"
  "getAccountById example_manager ''account_1700000005000_abcdefghi'' = Some personal_account"
  "getAccountById example_manager ''account_0_gone'' = None"
  by (simp_all add: getAccountById_def example_manager_def example_ids)

lemma findIndex_None_iff: "findIndex P xs = None \<longleftrightarrow> (\<forall>x \<in> set xs. \<not> P x)"
  by (induction xs) auto

lemma findIndex_Some:
  "findIndex P xs = Some k \<Longrightarrow> k < length xs \<and> P (xs ! k)"
proof (induction xs arbitrary: k)
  case Nil
  then show ?case by simp
next
  case (Cons x xs)
  show ?case
  proof (cases "P x")
    case True
    with Cons.prems show ?thesis by simp
  next
    case False
    with Cons.prems obtain k' where k': "findIndex P xs = Some k'" "k = Suc k'"
      by auto
    from Cons.IH[OF k'(1)] k'(2) show ?thesis
      by simp
  qed
qed

lemma find_findIndex:
  "find P xs = (case findIndex P xs of None \<Rightarrow> None | Some k \<Rightarrow> Some (xs ! k))"
  by (induction xs) (auto split: option.splits)

lemma splice1_no_id:
  assumes "distinct (map f xs)" "k < length xs"
  shows "\<forall>x \<in> set (splice1 k xs). f x \<noteq> f (xs ! k)"
proof -
  have xs: "xs = take k xs @ (xs ! k) # drop (Suc k) xs"
    using assms(2) by (simp add: id_take_nth_drop)
  have "distinct (map f (take k xs @ (xs ! k) # drop (Suc k) xs))"
    using assms(1) xs by simp
  then show ?thesis
    unfolding splice1_def by (auto simp: image_iff)
qed

lemma removeAccount_found:
  "fst (removeAccount m i) = (\<exists>a \<in> set (accounts m). acct_id a = i)"
proof (cases "findIndex (\<lambda>acc. acct_id acc = i) (accounts m)")
  case None
  then show ?thesis
    by (simp add: removeAccount_def findIndex_None_iff[symmetric])
next
  case (Some k)
  then have "findIndex (\<lambda>acc. acct_id acc = i) (accounts m) \<noteq> None" by simp
  then have "\<exists>a \<in> set (accounts m). acct_id a = i"
    by (simp add: findIndex_None_iff)
  with Some show ?thesis
    by (simp add: removeAccount_def Let_def)
qed

lemma removeAccount_unknown:
  "getAccountById m i = None \<Longrightarrow> removeAccount m i = (False, m)"
  by (auto simp: removeAccount_def getAccountById_def find_findIndex split: option.splits)

lemma removeAccount_gone:
  assumes "distinct (map acct_id (accounts m))"
  shows "getAccountById (snd (removeAccount m i)) i = None"
proof (cases "findIndex (\<lambda>acc. acct_id acc = i) (accounts m)")
  case None
  then show ?thesis
    by (simp add: removeAccount_def getAccountById_def find_findIndex)
next
  case (Some k)
  from findIndex_Some[OF Some] have k: "k < length (accounts m)" "acct_id (accounts m ! k) = i"
    by auto
  from splice1_no_id[OF assms k(1)] k(2)
  have "\<forall>x \<in> set (splice1 k (accounts m)). acct_id x \<noteq> i" by simp
  then have "find (\<lambda>acc. acct_id acc = i) (splice1 k (accounts m)) = None"
    by (simp add: find_None_iff)
  with Some show ?thesis
    by (simp add: removeAccount_def getAccountById_def Let_def saveAccounts_def)
qed

lemma removeAccount_token:
  "getAccountById m i = Some a \<Longrightarrow> authType a = PAT \<Longrightarrow>
     getToken (secretStorage (snd (removeAccount m i))) i = None"
  by (auto simp: removeAccount_def getAccountById_def find_findIndex Let_def saveAccounts_def
      getToken_def deleteToken_def split: option.splits)

lemma decimal_small: "n < 10 \<Longrightarrow> decimal n = [digitChar n]"
  by (subst decimal.simps) simp

lemma decimal_big: "\<not> n < 10 \<Longrightarrow> decimal n = decimal (n div 10) @ [digitChar (n mod 10)]"
  by (subst decimal.simps) simp

lemma decimal_nonempty: "decimal n \<noteq> []"
  by (cases "n < 10") (simp_all add: decimal_small decimal_big)

lemma digitChar_inj:
  assumes "a < 10" "b < 10" "digitChar a = digitChar b"
  shows "a = b"
proof -
  have "distinct ''0123456789''" by simp
  moreover have "a < length ''0123456789''" "b < length ''0123456789''"
    using assms(1,2) by simp_all
  ultimately show ?thesis
    using assms(3) unfolding digitChar_def by (simp only: nth_eq_iff_index_eq)
qed

lemma digitChar_mem: "k < 10 \<Longrightarrow> digitChar k \<in> set ''0123456789''"
  unfolding digitChar_def by (rule nth_mem) simp

lemma digit_not_underscore: "k < 10 \<Longrightarrow> CHR ''_'' \<noteq> digitChar k"
  using digitChar_mem[of k] by auto

lemma decimal_inj: "decimal m = decimal n \<Longrightarrow> m = n"
proof (induction m arbitrary: n rule: decimal.induct)
  case (1 m)
  show ?case
  proof (cases "m < 10")
    case mlt: True
    show ?thesis
    proof (cases "n < 10")
      case True
      with mlt "1.prems" decimal_small[OF mlt] decimal_small[OF True] show ?thesis
        by (auto intro: digitChar_inj)
    next
      case False
      with "1.prems" decimal_small[OF mlt] decimal_big[OF False]
      have "[digitChar m] = decimal (n div 10) @ [digitChar (n mod 10)]"
        by simp
      then have "decimal (n div 10) = []" by simp
      then show ?thesis by (simp add: decimal_nonempty)
    qed
  next
    case mge: False
    show ?thesis
    proof (cases "n < 10")
      case True
      with "1.prems" decimal_small[OF True] decimal_big[OF mge]
      have "decimal (m div 10) @ [digitChar (m mod 10)] = [digitChar n]"
        by simp
      then have "decimal (m div 10) = []" by simp
      then show ?thesis by (simp add: decimal_nonempty)
    next
      case False
      with "1.prems" decimal_big[OF mge] decimal_big[OF False]
      have eq: "decimal (m div 10) @ [digitChar (m mod 10)] = decimal (n div 10) @ [digitChar (n mod 10)]"
        by simp
      then have e1: "decimal (m div 10) = decimal (n div 10)"
        and e2: "digitChar (m mod 10) = digitChar (n mod 10)"
        by simp_all
      from "1.IH"[OF mge e1] have d: "m div 10 = n div 10" .
      have "m mod 10 = n mod 10"
        by (rule digitChar_inj[OF _ _ e2]) simp_all
      with d show ?thesis by (metis div_mult_mod_eq)
    qed
  qed
qed

lemma decimal_no_underscore: "CHR ''_'' \<notin> set (decimal n)"
proof (induction n rule: decimal.induct)
  case (1 n)
  show ?case
  proof (cases "n < 10")
    case True
    with decimal_small[OF True] digit_not_underscore[OF True] show ?thesis
      by simp
  next
    case False
    have "n mod 10 < 10" by simp
    from digit_not_underscore[OF this] decimal_big[OF False] 1[OF False] show ?thesis
      by simp
  qed
qed

lemma split_at_sep:
  assumes "xs @ c # ys = xs' @ c # ys'" "c \<notin> set xs" "c \<notin> set xs'"
  shows "xs = xs' \<and> ys = ys'"
  using assms
proof (induction xs arbitrary: xs')
  case Nil
  then show ?case by (cases xs') auto
next
  case (Cons x xs)
  then show ?case by (cases xs') auto
qed

lemma generateId_eq_iff:
  "generateId t r = generateId t' r' \<longleftrightarrow> t = t' \<and> substr 2 9 r = substr 2 9 r'"
proof
  assume "generateId t r = generateId t' r'"
  then have "decimal t @ CHR ''_'' # substr 2 9 r = decimal t' @ CHR ''_'' # substr 2 9 r'"
    by (simp add: generateId_def)
  from split_at_sep[OF this decimal_no_underscore decimal_no_underscore]
  show "t = t' \<and> substr 2 9 r = substr 2 9 r'"
    by (auto dest: decimal_inj)
next
  assume "t = t' \<and> substr 2 9 r = substr 2 9 r'"
  then show "generateId t r = generateId t' r'"
    by (simp add: generateId_def)
qed

lemma generateId_nonempty: "generateId t r \<noteq> []"
  by (simp add: generateId_def)

lemma addAccount_result:
  "fst (addAccount m d pat now rnd) = withId d (generateId now rnd)"
  "accounts (snd (addAccount m d pat now rnd)) = accounts m @ [withId d (generateId now rnd)]"
  "savedAccounts (snd (addAccount m d pat now rnd)) = accounts m @ [withId d (generateId now rnd)]"
  by (simp_all add: addAccount_def Let_def saveAccounts_def split: option.splits)

lemma addAccount_secrets:
  "secretStorage (snd (addAccount m d pat now rnd)) =
     (case pat of
        Some token \<Rightarrow>
          if token \<noteq> [] \<and> authType d = PAT
          then (secretStorage m)(PAT_PREFIX @ generateId now rnd \<mapsto> token)
          else secretStorage m
      | None \<Rightarrow> secretStorage m)"
  by (simp add: addAccount_def Let_def saveAccounts_def storeToken_def withId_def
      split: option.splits)

lemma removeAccount_accounts:
  "accounts (snd (removeAccount m i)) =
     (case findIndex (\<lambda>acc. acct_id acc = i) (accounts m) of
        None \<Rightarrow> accounts m
      | Some index \<Rightarrow> splice1 index (accounts m))"
  "savedAccounts (snd (removeAccount m i)) =
     (case findIndex (\<lambda>acc. acct_id acc = i) (accounts m) of
        None \<Rightarrow> savedAccounts m
      | Some index \<Rightarrow> splice1 index (accounts m))"
  by (simp_all add: removeAccount_def Let_def saveAccounts_def split: option.splits)

lemma updateAccount_accounts:
  "accounts (snd (updateAccount m i u)) =
     (case findIndex (\<lambda>acc. acct_id acc = i) (accounts m) of
        None \<Rightarrow> accounts m
      | Some index \<Rightarrow> (accounts m)[index := assign (accounts m ! index) u])"
  "savedAccounts (snd (updateAccount m i u)) =
     (case findIndex (\<lambda>acc. acct_id acc = i) (accounts m) of
        None \<Rightarrow> savedAccounts m
      | Some index \<Rightarrow> (accounts m)[index := assign (accounts m ! index) u])"
  "secretStorage (snd (updateAccount m i u)) = secretStorage m"
  by (simp_all add: updateAccount_def saveAccounts_def split: option.splits)

lemma validateName_iff:
  "validateName m v \<noteq> None \<longleftrightarrow>
     trim v = [] \<or> (\<exists>a \<in> set (accounts m). toLowerCase (name a) = toLowerCase v)"
  by (auto simp: validateName_def getAccountByName_def find_None_iff)

lemma decimal_example: "decimal 1700000009000 = ''1700000009000''"
  by (simp add: decimal_big decimal_small digitChar_def)

lemma generateId_example:
  "generateId 1700000009000 ''0.i'' = ''account_1700000009000_i''"
  by (simp add: generateId_def decimal_example substr_def)

lemma lower_WORK: "toLowerCase ''WORK'' = ''work''" "toLowerCase ''Work'' = ''work''"
  by (simp_all add: toLowerCase_def toLowerChar_def upperChars_def lowerChars_def)

lemma example_distinct: "distinct (map acct_id (accounts example_manager))"
  by (simp add: example_manager_def example_ids)

lemma example_added_accounts:
  "accounts example_added =
     [work_account, personal_account, withId work_fields ''account_1700000009000_i'']"
  by (simp add: example_added_def addAccount_result generateId_example example_manager_def)

text \<open>
  The ids of the collection: every id that \<open>addAccount\<close> assigns is non-empty, and
  \<open>removeAccount\<close> and \<open>updateAccount\<close> keep the ids pairwise distinct.
\<close>

lemma distinct_splice1: "distinct ys \<Longrightarrow> distinct (splice1 k ys)"
  unfolding splice1_def
  by (simp add: set_take_disj_set_drop_if_distinct)

lemma map_splice1: "map f (splice1 k xs) = splice1 k (map f xs)"
  by (simp add: splice1_def take_map drop_map)

lemma removeAccount_keeps_distinct:
  "distinct (map acct_id (accounts m)) \<Longrightarrow>
     distinct (map acct_id (accounts (snd (removeAccount m i))))"
  by (auto simp: removeAccount_accounts map_splice1 distinct_splice1 split: option.splits)

lemma acct_id_assign: "acct_id (assign a u) = acct_id a"
  by (simp add: assign_def)

lemma updateAccount_keeps_ids:
  "map acct_id (accounts (snd (updateAccount m i u))) = map acct_id (accounts m)"
proof (cases "findIndex (\<lambda>acc. acct_id acc = i) (accounts m)")
  case None
  then show ?thesis by (simp add: updateAccount_accounts)
next
  case (Some k)
  from findIndex_Some[OF Some] have "k < length (accounts m)" by simp
  then show ?thesis
    using Some by (simp add: updateAccount_accounts map_update acct_id_assign list_update_same_conv)
qed

lemma addAccount_id_nonempty: "acct_id (fst (addAccount m d pat now rnd)) \<noteq> []"
  by (simp add: addAccount_result withId_def generateId_nonempty)


section \<open>The account manager as a registry\<close>

text \<open>
  Claim C2, as amended. \<open>addAccount\<close> checks nothing: for every draft, also one whose name
  is empty or equals the name of an account of the collection up to case, it appends the
  draft with a generated id to the collection, saves the collection and returns the new
  account. Names are refused by the caller only: the check of the name field in the
  add-account command refuses exactly the names that are blank or that
  \<open>getAccountByName\<close> finds.
\<close>

theorem addAccount_no_validation:
  "fst (addAccount m d pat now rnd) = withId d (generateId now rnd) \<and>
   accounts (snd (addAccount m d pat now rnd)) = accounts m @ [withId d (generateId now rnd)] \<and>
   savedAccounts (snd (addAccount m d pat now rnd)) = accounts m @ [withId d (generateId now rnd)] \<and>
   (validateName m v \<noteq> None \<longleftrightarrow>
      trim v = [] \<or> (\<exists>a \<in> set (accounts m). toLowerCase (name a) = toLowerCase v))"
  by (intro conjI addAccount_result validateName_iff)

theorem addAccount_no_validation_witness:
  "accounts (snd (addAccount example_manager (work_fields\<lparr>name := ''WORK''\<rparr>) None 1700000009000 ''0.i'')) =
     [work_account, personal_account,
      withId (work_fields\<lparr>name := ''WORK''\<rparr>) ''account_1700000009000_i''] \<and>
   validateName example_manager ''WORK'' = Some ''An account with this name already exists'' \<and>
   validateName example_manager [] = Some ''Name is required''"
proof -
  have a: "accounts example_manager = [work_account, personal_account]"
    by (simp add: example_manager_def)
  have v1: "validateName example_manager ''WORK'' = Some ''An account with this name already exists''"
    by (simp add: validateName_def trim_def isSpace_def getAccountByName_def a example_ids lower_WORK)
  have v2: "validateName example_manager [] = Some ''Name is required''"
    by (simp add: validateName_def trim_def)
  from addAccount_no_validation[of example_manager "work_fields\<lparr>name := ''WORK''\<rparr>" None
      1700000009000 "''0.i''" "''WORK''"] v1 v2
  show ?thesis
    by (simp add: a generateId_example)
qed

text \<open>
  The claim as stated fails: a draft named \<open>WORK\<close> is added although an account named
  \<open>Work\<close> exists, and so is a draft with the empty name; both change the collection.
\<close>

theorem addAccount_rejects_counterexample:
  "toLowerCase (name (work_fields\<lparr>name := ''WORK''\<rparr>)) = toLowerCase (name work_account) \<and>
   accounts (snd (addAccount example_manager (work_fields\<lparr>name := ''WORK''\<rparr>) None 1700000009000 ''0.i'')) \<noteq>
     accounts example_manager \<and>
   name (work_fields\<lparr>name := []\<rparr>) = [] \<and>
   savedAccounts (snd (addAccount example_manager (work_fields\<lparr>name := []\<rparr>) None 1700000009000 ''0.i'')) \<noteq>
     savedAccounts example_manager"
  by (simp add: addAccount_result example_ids lower_WORK example_manager_def)

text \<open>
  What holds of \<open>removeAccount\<close> in a collection with pairwise distinct ids: it returns
  true exactly when an account with the id is present, and then no account with that id
  is left; when the account found is of the token type its secret is no longer in the
  secret storage; for an unknown id, and when the same id is removed again, the result is
  false and the manager is unchanged.
\<close>

lemma removeAccount_distinct_ids:
  assumes "distinct (map acct_id (accounts m))"
  shows "fst (removeAccount m i) = (\<exists>a \<in> set (accounts m). acct_id a = i) \<and>
     getAccountById (snd (removeAccount m i)) i = None \<and>
     (\<forall>a. getAccountById m i = Some a \<and> authType a = PAT \<longrightarrow>
        getToken (secretStorage (snd (removeAccount m i))) i = None) \<and>
     (getAccountById m i = None \<longrightarrow> removeAccount m i = (False, m)) \<and>
     removeAccount (snd (removeAccount m i)) i = (False, snd (removeAccount m i))"
proof (intro conjI allI impI)
  show "fst (removeAccount m i) = (\<exists>a \<in> set (accounts m). acct_id a = i)"
    by (rule removeAccount_found)
  show gone: "getAccountById (snd (removeAccount m i)) i = None"
    by (rule removeAccount_gone[OF assms])
  show "getToken (secretStorage (snd (removeAccount m i))) i = None"
    if "getAccountById m i = Some a \<and> authType a = PAT" for a
    using that removeAccount_token[of m i a] by simp
  show "removeAccount m i = (False, m)" if "getAccountById m i = None"
    using that by (rule removeAccount_unknown)
  show "removeAccount (snd (removeAccount m i)) i = (False, snd (removeAccount m i))"
    using gone by (rule removeAccount_unknown)
qed

lemma example_twice_accounts:
  "accounts example_twice =
     [work_account, personal_account,
      withId work_fields ''account_1700000009000_i'',
      withId personal_fields ''account_1700000009000_i'']"
  by (simp add: example_twice_def addAccount_result generateId_example example_added_accounts)

text \<open>
  Claim C4. The claim says that, for every id, after \<open>removeAccount\<close> no account with the
  id is found, and that removing the same id again reports that nothing was found. In
  the collection that two adds at the same clock value and draw leave, two accounts have
  the id \<open>account_1700000009000_i\<close>. There \<open>removeAccount\<close> takes out the first of them and
  returns true, \<open>getAccountById\<close> still finds the second, and removing the id again
  returns true once more.
\<close>

theorem removeAccount_duplicate_id:
  "map acct_id (accounts example_twice) =
     [''account_1700000000000_k3j9x2m1q'', ''account_1700000005000_abcdefghi'',
      ''account_1700000009000_i'', ''account_1700000009000_i''] \<and>
   fst (removeAccount example_twice ''account_1700000009000_i'') \<and>
   getAccountById (snd (removeAccount example_twice ''account_1700000009000_i''))
     ''account_1700000009000_i'' = Some (withId personal_fields ''account_1700000009000_i'') \<and>
   fst (removeAccount (snd (removeAccount example_twice ''account_1700000009000_i''))
     ''account_1700000009000_i'')"
  by (simp add: example_twice_accounts example_ids withId_def removeAccount_def
      getAccountById_def splice1_def saveAccounts_def Let_def)

text \<open>
  What holds of the ids: two generated ids are equal exactly when the clock value and
  the nine characters taken from the random draw are both equal, and \<open>addAccount\<close>
  assigns the generated id without comparing it with the ids of the collection.
\<close>

lemma generateId_collisions:
  "(generateId now rnd = generateId now' rnd' \<longleftrightarrow> now = now' \<and> substr 2 9 rnd = substr 2 9 rnd') \<and>
   acct_id (fst (addAccount m d pat now rnd)) = generateId now rnd \<and>
   (distinct (map acct_id (accounts (snd (addAccount m d pat now rnd)))) \<longleftrightarrow>
      distinct (map acct_id (accounts m)) \<and> generateId now rnd \<notin> set (map acct_id (accounts m)))"
  by (auto simp: generateId_eq_iff addAccount_result withId_def)

text \<open>
  Claim C8. The claim says that every generated id is distinct from every other id
  generated or assigned before, and that no id is used again after its account is
  deleted. Two adds for which \<open>Date.now()\<close> gives \<open>1700000009000\<close> and \<open>Math.random()\<close> gives
  \<open>0.5\<close> (\<open>0.i\<close> as text) both assign the id \<open>account_1700000009000_i\<close>, so the ids of the
  collection are no longer distinct; and after the account with that id is removed, an
  add at the same clock value and draw assigns the id again.
\<close>

theorem generateId_collision:
  "acct_id (fst (addAccount example_manager work_fields None 1700000009000 ''0.i'')) =
     ''account_1700000009000_i'' \<and>
   acct_id (fst (addAccount example_added personal_fields None 1700000009000 ''0.i'')) =
     ''account_1700000009000_i'' \<and>
   \<not> distinct (map acct_id
        (accounts (snd (addAccount example_added personal_fields None 1700000009000 ''0.i'')))) \<and>
   fst (removeAccount example_added ''account_1700000009000_i'') \<and>
   getAccountById (snd (removeAccount example_added ''account_1700000009000_i''))
     ''account_1700000009000_i'' = None \<and>
   acct_id (fst (addAccount (snd (removeAccount example_added ''account_1700000009000_i''))
        personal_fields None 1700000009000 ''0.i'')) =
     ''account_1700000009000_i''"
  by (simp add: addAccount_result generateId_example example_added_accounts withId_def
      removeAccount_def getAccountById_def example_ids splice1_def saveAccounts_def Let_def)

text \<open>
  Claim C9. The account record has no field for a token, and the accounts, in memory and
  saved, and the account returned are the same whatever the token given to \<open>addAccount\<close>
  and whatever the secret storage holds; the same is true of the collections after
  \<open>removeAccount\<close> and \<open>updateAccount\<close>. When an account of the token type is added with a
  non-empty token, the secret storage changes at the key \<open>PAT_PREFIX\<close> followed by the new
  id, which then holds the token, and nowhere else; without a token, or for an account
  of the SSH type, the secret storage does not change.
\<close>

theorem no_secret_on_record:
  "fst (addAccount (m\<lparr>secretStorage := s'\<rparr>) d pat' now rnd) = fst (addAccount m d pat now rnd) \<and>
   accounts (snd (addAccount (m\<lparr>secretStorage := s'\<rparr>) d pat' now rnd)) =
     accounts (snd (addAccount m d pat now rnd)) \<and>
   savedAccounts (snd (addAccount (m\<lparr>secretStorage := s'\<rparr>) d pat' now rnd)) =
     savedAccounts (snd (addAccount m d pat now rnd)) \<and>
   accounts (snd (removeAccount (m\<lparr>secretStorage := s'\<rparr>) i)) = accounts (snd (removeAccount m i)) \<and>
   savedAccounts (snd (removeAccount (m\<lparr>secretStorage := s'\<rparr>) i)) =
     savedAccounts (snd (removeAccount m i)) \<and>
   accounts (snd (updateAccount (m\<lparr>secretStorage := s'\<rparr>) i u)) = accounts (snd (updateAccount m i u)) \<and>
   savedAccounts (snd (updateAccount (m\<lparr>secretStorage := s'\<rparr>) i u)) =
     savedAccounts (snd (updateAccount m i u)) \<and>
   (\<forall>token. pat = Some token \<and> token \<noteq> [] \<and> authType d = PAT \<longrightarrow>
      secretStorage (snd (addAccount m d pat now rnd)) =
        (secretStorage m)(PAT_PREFIX @ acct_id (fst (addAccount m d pat now rnd)) \<mapsto> token) \<and>
      getToken (secretStorage (snd (addAccount m d pat now rnd)))
        (acct_id (fst (addAccount m d pat now rnd))) = Some token) \<and>
   (pat = None \<or> pat = Some [] \<or> authType d = SSH \<longrightarrow>
      secretStorage (snd (addAccount m d pat now rnd)) = secretStorage m)"
proof -
  have 1: "secretStorage (snd (addAccount m d pat now rnd)) =
        (secretStorage m)(PAT_PREFIX @ acct_id (fst (addAccount m d pat now rnd)) \<mapsto> token) \<and>
      getToken (secretStorage (snd (addAccount m d pat now rnd)))
        (acct_id (fst (addAccount m d pat now rnd))) = Some token"
    if "pat = Some token \<and> token \<noteq> [] \<and> authType d = PAT" for token
    using that by (simp add: addAccount_secrets addAccount_result withId_def getToken_def)
  have 2: "secretStorage (snd (addAccount m d pat now rnd)) = secretStorage m"
    if "pat = None \<or> pat = Some [] \<or> authType d = SSH"
    using that by (auto simp: addAccount_secrets split: option.splits)
  have 3: "fst (addAccount (m\<lparr>secretStorage := s'\<rparr>) d pat' now rnd) = fst (addAccount m d pat now rnd) \<and>
   accounts (snd (addAccount (m\<lparr>secretStorage := s'\<rparr>) d pat' now rnd)) =
     accounts (snd (addAccount m d pat now rnd)) \<and>
   savedAccounts (snd (addAccount (m\<lparr>secretStorage := s'\<rparr>) d pat' now rnd)) =
     savedAccounts (snd (addAccount m d pat now rnd))"
    by (simp add: addAccount_result)
  have 4: "accounts (snd (removeAccount (m\<lparr>secretStorage := s'\<rparr>) i)) = accounts (snd (removeAccount m i)) \<and>
   savedAccounts (snd (removeAccount (m\<lparr>secretStorage := s'\<rparr>) i)) =
     savedAccounts (snd (removeAccount m i))"
    by (simp add: removeAccount_accounts cong: option.case_cong)
  have 5: "accounts (snd (updateAccount (m\<lparr>secretStorage := s'\<rparr>) i u)) = accounts (snd (updateAccount m i u)) \<and>
   savedAccounts (snd (updateAccount (m\<lparr>secretStorage := s'\<rparr>) i u)) =
     savedAccounts (snd (updateAccount m i u))"
    by (simp add: updateAccount_accounts cong: option.case_cong)
  from 1 2 3 4 5 show ?thesis by blast
qed

theorem no_secret_on_record_witness:
  "authType personal_fields = PAT \<and>
   getToken (secretStorage (snd (addAccount example_manager personal_fields (Some ''ghp_secret'')
       1700000009000 ''0.i''))) ''account_1700000009000_i'' = Some ''ghp_secret'' \<and>
   accounts (snd (addAccount example_manager personal_fields (Some ''ghp_secret'')
       1700000009000 ''0.i'')) =
     accounts (snd (addAccount example_manager personal_fields None 1700000009000 ''0.i'')) \<and>
   authType work_fields = SSH \<and>
   secretStorage (snd (addAccount example_manager work_fields (Some ''ghp_secret'')
       1700000009000 ''0.i'')) = secretStorage example_manager"
proof -
  have t: "authType personal_fields = PAT" "authType work_fields = SSH"
    by (simp_all add: personal_fields_def work_fields_def)
  have e: "example_manager\<lparr>secretStorage := secretStorage example_manager\<rparr> = example_manager"
    by simp
  from t
    no_secret_on_record[where m = example_manager and s' = "secretStorage example_manager"
      and d = personal_fields and pat' = None and now = 1700000009000
      and rnd = "''0.i''" and pat = "Some ''ghp_secret''"]
    no_secret_on_record[where m = example_manager and s' = "secretStorage example_manager"
      and d = work_fields and pat' = None and now = 1700000009000
      and rnd = "''0.i''" and pat = "Some ''ghp_secret''"]
  show ?thesis
    by (simp add: e addAccount_result generateId_example withId_def getToken_def)
qed


section \<open>Detection of the account of a repository\<close>

lemma scanMappings_find:
  "scanMappings u ms = map_option accountId (find (patternMatches u) (map snd ms))"
  by (induction u ms rule: scanMappings.induct)
     (auto simp: patternMatches_def str_includes_def split: option.splits)

lemma detect_chain:
  "detectAccountForRepo w p =
     (case fileOverride w p of
        Some i \<Rightarrow> Some i
      | None \<Rightarrow> (case remotePatternMatch w p of Some i \<Rightarrow> Some i | None \<Rightarrow> directMapping w p))"
  unfolding detectAccountForRepo_def fileOverride_def namedById_def namedByName_def
    remotePatternMatch_def directMapping_def getRemoteUrl_def scanMappings_find Let_def
  by (auto split: option.splits)

lemma fileOverride_cong:
  "fileOverride (w\<lparr>mappings := ms, remoteUrls := rs\<rparr>) p = fileOverride w p"
  by (simp add: fileOverride_def namedById_def namedByName_def readGitAccountFile_def
      cong: option.case_cong if_cong)

lemma example_by_name:
  "getAccountByName example_manager ''WORK'' = Some work_account"
  by (simp add: getAccountByName_def example_manager_def example_ids toLowerCase_def
      toLowerChar_def upperChars_def lowerChars_def)

lemma example_world_fields:
  "manager example_world = example_manager"
  "remoteUrls example_world ''/repos/app'' = Some ''git@github.com:acme/app.git''"
  "gitaccountFiles example_world ''/repos/app'' = None"
  "map_of (mappings example_world) ''/repos/app'' =
     Some \<lparr>repoPath = ''/repos/app'', accountId = ''account_1700000005000_abcdefghi'',
           remotePattern = None\<rparr>"
  by (simp_all add: example_world_def)

lemma example_find:
  "find (patternMatches ''git@github.com:acme/app.git'') (map snd (mappings example_world)) =
     Some \<lparr>repoPath = ''/repos/lib'', accountId = ''account_1700000000000_k3j9x2m1q'',
           remotePattern = Some ''github.com:acme/''\<rparr>"
  by (simp add: example_world_def patternMatches_def sublist_Cons_right)

text \<open>
  Claim C1. \<open>detectAccountForRepo\<close> tries its strategies in a fixed order. An account named
  by the \<open>.gitaccount\<close> file, by id or else by name, decides the result at once, whatever
  the mappings and the remote URL are; so it wins over a direct mapping of the path to
  another account. When the file names no account, the first mapping whose pattern is a
  non-empty part of the remote URL decides, also against a direct mapping of the path to
  another account. When no pattern matches either, the mapping stored under the path
  itself decides. The result is nothing exactly when all three strategies fail.
\<close>

theorem detect_strategy_order:
  "(\<forall>a. namedById w p = Some a \<longrightarrow> detectAccountForRepo w p = Some (acct_id a)) \<and>
   (\<forall>a. namedById w p = None \<and> namedByName w p = Some a \<longrightarrow>
        detectAccountForRepo w p = Some (acct_id a)) \<and>
   (\<forall>u m. fileOverride w p = None \<and> remoteUrls w p = Some u \<and> u \<noteq> [] \<and>
        find (patternMatches u) (map snd (mappings w)) = Some m \<longrightarrow>
        detectAccountForRepo w p = Some (accountId m)) \<and>
   (\<forall>m. fileOverride w p = None \<and> remotePatternMatch w p = None \<and>
        map_of (mappings w) p = Some m \<longrightarrow>
        detectAccountForRepo w p = Some (accountId m)) \<and>
   (detectAccountForRepo w p = None \<longleftrightarrow>
      fileOverride w p = None \<and> remotePatternMatch w p = None \<and> directMapping w p = None) \<and>
   (\<forall>a ms rs. (namedById w p = Some a \<or> namedById w p = None \<and> namedByName w p = Some a) \<longrightarrow>
        detectAccountForRepo (w\<lparr>mappings := ms, remoteUrls := rs\<rparr>) p = Some (acct_id a))"
proof -
  have 6: "detectAccountForRepo (w\<lparr>mappings := ms, remoteUrls := rs\<rparr>) p = Some (acct_id a)"
    if "namedById w p = Some a \<or> namedById w p = None \<and> namedByName w p = Some a" for a ms rs
  proof -
    from that have "fileOverride w p = Some (acct_id a)"
      by (auto simp: fileOverride_def)
    then show ?thesis
      by (simp add: detect_chain fileOverride_cong)
  qed
  have 15: "(\<forall>a. namedById w p = Some a \<longrightarrow> detectAccountForRepo w p = Some (acct_id a)) \<and>
   (\<forall>a. namedById w p = None \<and> namedByName w p = Some a \<longrightarrow>
        detectAccountForRepo w p = Some (acct_id a)) \<and>
   (\<forall>u m. fileOverride w p = None \<and> remoteUrls w p = Some u \<and> u \<noteq> [] \<and>
        find (patternMatches u) (map snd (mappings w)) = Some m \<longrightarrow>
        detectAccountForRepo w p = Some (accountId m)) \<and>
   (\<forall>m. fileOverride w p = None \<and> remotePatternMatch w p = None \<and>
        map_of (mappings w) p = Some m \<longrightarrow>
        detectAccountForRepo w p = Some (accountId m)) \<and>
   (detectAccountForRepo w p = None \<longleftrightarrow>
      fileOverride w p = None \<and> remotePatternMatch w p = None \<and> directMapping w p = None)"
    by (auto simp: detect_chain fileOverride_def remotePatternMatch_def directMapping_def
        split: option.splits)
  from 15 6 show ?thesis by blast
qed

theorem detect_strategy_order_witness:
  "namedById example_world_file ''/repos/app'' = Some work_account \<and>
   directMapping example_world_file ''/repos/app'' = Some ''account_1700000005000_abcdefghi'' \<and>
   detectAccountForRepo example_world_file ''/repos/app'' = Some ''account_1700000000000_k3j9x2m1q'' \<and>
   fileOverride example_world ''/repos/app'' = None \<and>
   remoteUrls example_world ''/repos/app'' = Some ''git@github.com:acme/app.git'' \<and>
   find (patternMatches ''git@github.com:acme/app.git'') (map snd (mappings example_world)) =
     Some \<lparr>repoPath = ''/repos/lib'', accountId = ''account_1700000000000_k3j9x2m1q'',
           remotePattern = Some ''github.com:acme/''\<rparr> \<and>
   directMapping example_world ''/repos/app'' = Some ''account_1700000005000_abcdefghi'' \<and>
   detectAccountForRepo example_world ''/repos/app'' = Some ''account_1700000000000_k3j9x2m1q''"
proof -
  have h1: "namedById example_world_file ''/repos/app'' = Some work_account"
    by (simp add: namedById_def readGitAccountFile_def example_world_file_def
        example_world_fields example_lookup)
  have d1: "directMapping example_world_file ''/repos/app'' = Some ''account_1700000005000_abcdefghi''"
    by (simp add: directMapping_def example_world_file_def example_world_fields)
  have h2: "fileOverride example_world ''/repos/app'' = None"
    by (simp add: fileOverride_def namedById_def namedByName_def readGitAccountFile_def
        example_world_fields)
  have d2: "directMapping example_world ''/repos/app'' = Some ''account_1700000005000_abcdefghi''"
    by (simp add: directMapping_def example_world_fields)
  from h1 d1 h2 d2 example_find example_world_fields(2)
    detect_strategy_order[of example_world_file "''/repos/app''"]
    detect_strategy_order[of example_world "''/repos/app''"]
  show ?thesis
    by (simp add: example_ids)
qed

text \<open>
  Claim C10. When the \<open>.gitaccount\<close> file gives an \<open>accountId\<close> that resolves to no account
  and an \<open>accountName\<close> that resolves, without regard to case, to an account, the result is
  the id of that account, whatever the mappings and the remote URL are. Detection goes on
  to the remote patterns and the direct mapping when neither field resolves, and only
  then: when one of them resolves, the result does not depend on mappings or remote URL.
\<close>

theorem detect_name_fallback:
  "(\<forall>cfg i n a ms rs.
      readGitAccountFile w p = Some cfg \<and>
      cfg_accountId cfg = Some i \<and> getAccountById (manager w) i = None \<and>
      cfg_accountName cfg = Some n \<and> n \<noteq> [] \<and> getAccountByName (manager w) n = Some a \<longrightarrow>
      toLowerCase (name a) = toLowerCase n \<and>
      detectAccountForRepo w p = Some (acct_id a) \<and>
      detectAccountForRepo (w\<lparr>mappings := ms, remoteUrls := rs\<rparr>) p = Some (acct_id a)) \<and>
   (namedById w p = None \<and> namedByName w p = None \<longrightarrow>
      detectAccountForRepo w p =
        (case remotePatternMatch w p of Some i \<Rightarrow> Some i | None \<Rightarrow> directMapping w p)) \<and>
   (\<forall>ms rs. namedById w p \<noteq> None \<or> namedByName w p \<noteq> None \<longrightarrow>
      detectAccountForRepo (w\<lparr>mappings := ms, remoteUrls := rs\<rparr>) p = detectAccountForRepo w p)"
proof -
  have 1: "toLowerCase (name a) = toLowerCase n \<and>
      detectAccountForRepo w p = Some (acct_id a) \<and>
      detectAccountForRepo (w\<lparr>mappings := ms, remoteUrls := rs\<rparr>) p = Some (acct_id a)"
    if "readGitAccountFile w p = Some cfg" "cfg_accountId cfg = Some i"
      "getAccountById (manager w) i = None" "cfg_accountName cfg = Some n" "n \<noteq> []"
      "getAccountByName (manager w) n = Some a" for cfg i n a ms rs
  proof -
    from that have "fileOverride w p = Some (acct_id a)"
      by (simp add: fileOverride_def namedById_def namedByName_def)
    moreover from that(6) have "toLowerCase (name a) = toLowerCase n"
      by (auto simp: getAccountByName_def find_Some_iff)
    ultimately show ?thesis
      by (simp add: detect_chain fileOverride_cong)
  qed
  have 2: "namedById w p = None \<and> namedByName w p = None \<longrightarrow>
      detectAccountForRepo w p =
        (case remotePatternMatch w p of Some i \<Rightarrow> Some i | None \<Rightarrow> directMapping w p)"
    by (simp add: detect_chain fileOverride_def)
  have 3: "detectAccountForRepo (w\<lparr>mappings := ms, remoteUrls := rs\<rparr>) p = detectAccountForRepo w p"
    if "namedById w p \<noteq> None \<or> namedByName w p \<noteq> None" for ms rs
  proof -
    from that have "fileOverride w p \<noteq> None"
      by (auto simp: fileOverride_def split: option.splits)
    then obtain j where "fileOverride w p = Some j"
      by blast
    then show ?thesis
      by (simp add: detect_chain fileOverride_cong)
  qed
  from 1 2 3 show ?thesis by blast
qed

theorem detect_name_fallback_witness:
  "readGitAccountFile example_world_dangling ''/repos/app'' =
     Some \<lparr>cfg_accountId = Some ''account_0_gone'', cfg_accountName = Some ''WORK''\<rparr> \<and>
   getAccountById (manager example_world_dangling) ''account_0_gone'' = None \<and>
   getAccountByName (manager example_world_dangling) ''WORK'' = Some work_account \<and>
   directMapping example_world_dangling ''/repos/app'' = Some ''account_1700000005000_abcdefghi'' \<and>
   detectAccountForRepo example_world_dangling ''/repos/app'' = Some ''account_1700000000000_k3j9x2m1q'' \<and>
   namedById example_world ''/repos/app'' = None \<and> namedByName example_world ''/repos/app'' = None \<and>
   detectAccountForRepo example_world ''/repos/app'' = remotePatternMatch example_world ''/repos/app''"
proof -
  have r: "readGitAccountFile example_world_dangling ''/repos/app'' =
     Some \<lparr>cfg_accountId = Some ''account_0_gone'', cfg_accountName = Some ''WORK''\<rparr>"
    by (simp add: readGitAccountFile_def example_world_dangling_def)
  have m: "manager example_world_dangling = example_manager"
    by (simp add: example_world_dangling_def example_world_fields)
  have d: "directMapping example_world_dangling ''/repos/app'' = Some ''account_1700000005000_abcdefghi''"
    by (simp add: directMapping_def example_world_dangling_def example_world_fields)
  have n: "namedById example_world ''/repos/app'' = None" "namedByName example_world ''/repos/app'' = None"
    by (simp_all add: namedById_def namedByName_def readGitAccountFile_def example_world_fields)
  have rp: "remotePatternMatch example_world ''/repos/app'' = Some ''account_1700000000000_k3j9x2m1q''"
    by (simp add: remotePatternMatch_def example_world_fields example_find)
  from r m d n rp example_lookup(3) example_by_name
    detect_name_fallback[of example_world_dangling "''/repos/app''"]
    detect_name_fallback[of example_world "''/repos/app''"]
  show ?thesis
    by (simp add: example_ids)
qed

text \<open>
  Claim C6. Round trip: for a repository path and the id of an account of the registry,
  writing the repository account file and then detecting the account of the same path,
  with the registry unchanged, gives that id. This holds for any mappings, so also with
  none. The id is taken to be non-empty, as every id that \<open>generateId\<close> makes is.
\<close>

theorem write_then_detect:
  assumes "getAccountById (manager w) i = Some a" and "i \<noteq> []"
  shows "fst (writeGitAccountFile w p i) = Inr () \<and>
         manager (snd (writeGitAccountFile w p i)) = manager w \<and>
         detectAccountForRepo (snd (writeGitAccountFile w p i)) p = Some i"
proof -
  from assms(1) have id: "acct_id a = i" by (rule getAccountById_Some_id)
  let ?w = "snd (writeGitAccountFile w p i)"
  from assms id have "namedById ?w p = Some a"
    by (simp add: writeGitAccountFile_def namedById_def readGitAccountFile_def)
  then have "fileOverride ?w p = Some i"
    by (simp add: fileOverride_def id)
  then have "detectAccountForRepo ?w p = Some i"
    by (simp add: detect_chain)
  with assms(1) show ?thesis
    by (simp add: writeGitAccountFile_def)
qed

theorem write_then_detect_witness:
  "getAccountById (manager (example_world\<lparr>mappings := []\<rparr>)) ''account_1700000005000_abcdefghi'' =
     Some personal_account \<and>
   ''account_1700000005000_abcdefghi'' \<noteq> [] \<and>
   detectAccountForRepo
     (snd (writeGitAccountFile (example_world\<lparr>mappings := []\<rparr>) ''/repos/app''
        ''account_1700000005000_abcdefghi''))
     ''/repos/app'' = Some ''account_1700000005000_abcdefghi''"
proof -
  have h: "getAccountById (manager (example_world\<lparr>mappings := []\<rparr>)) ''account_1700000005000_abcdefghi'' =
     Some personal_account"
    by (simp add: example_world_fields example_lookup)
  have ne: "''account_1700000005000_abcdefghi'' \<noteq> []" by simp
  from write_then_detect[OF h ne, of "''/repos/app''"] h show ?thesis
    by simp
qed


section \<open>Writing the repository account file\<close>

text \<open>
  Claim C7. For an id that references no account of the registry, \<open>writeGitAccountFile\<close>
  fails with the error \<open>Account not found\<close> and changes nothing, so no file is written.
  For the id of an existing account it succeeds and the file \<open>.gitaccount\<close> of the
  repository then holds the object with both the id and the name of that account,
  whatever the file held before; nothing else changes.
\<close>

theorem writeGitAccountFile_spec:
  "(getAccountById (manager w) i = None \<longrightarrow>
      writeGitAccountFile w p i = (Inl AccountNotFound, w)) \<and>
   (\<forall>a. getAccountById (manager w) i = Some a \<longrightarrow>
      fst (writeGitAccountFile w p i) = Inr () \<and>
      gitaccountFiles (snd (writeGitAccountFile w p i)) =
        (gitaccountFiles w)(p \<mapsto> Parsed \<lparr>cfg_accountId = Some i, cfg_accountName = Some (name a)\<rparr>) \<and>
      readGitAccountFile (snd (writeGitAccountFile w p i)) p =
        Some \<lparr>cfg_accountId = Some i, cfg_accountName = Some (name a)\<rparr> \<and>
      manager (snd (writeGitAccountFile w p i)) = manager w \<and>
      mappings (snd (writeGitAccountFile w p i)) = mappings w \<and>
      remoteUrls (snd (writeGitAccountFile w p i)) = remoteUrls w)"
  by (auto simp: writeGitAccountFile_def readGitAccountFile_def dest: getAccountById_Some_id)

theorem writeGitAccountFile_spec_witness:
  "getAccountById (manager example_world) ''account_0_gone'' = None \<and>
   writeGitAccountFile example_world ''/repos/app'' ''account_0_gone'' =
     (Inl AccountNotFound, example_world) \<and>
   getAccountById (manager example_world) ''account_1700000000000_k3j9x2m1q'' = Some work_account \<and>
   fst (writeGitAccountFile example_world ''/repos/app'' ''account_1700000000000_k3j9x2m1q'') = Inr () \<and>
   readGitAccountFile
     (snd (writeGitAccountFile example_world ''/repos/app'' ''account_1700000000000_k3j9x2m1q''))
     ''/repos/app'' =
     Some \<lparr>cfg_accountId = Some ''account_1700000000000_k3j9x2m1q'', cfg_accountName = Some ''Work''\<rparr>"
proof -
  have m: "manager example_world = example_manager"
    by (simp add: example_world_def)
  have h1: "getAccountById (manager example_world) ''account_0_gone'' = None"
    and h2: "getAccountById (manager example_world) ''account_1700000000000_k3j9x2m1q'' = Some work_account"
    by (simp_all add: m example_lookup)
  from h1 h2
    writeGitAccountFile_spec[of example_world "''account_0_gone''" "''/repos/app''"]
    writeGitAccountFile_spec[of example_world "''account_1700000000000_k3j9x2m1q''" "''/repos/app''"]
  show ?thesis
    by (simp add: example_ids)
qed


section \<open>Applying the SSH configuration of an account\<close>

lemma matchSshUrl_form:
  assumes "gitSshForm url host path"
  shows "matchSshUrl url = Some (host, path)"
proof -
  from assms have url: "url = ''git@'' @ host @ CHR '':'' # path"
    and host: "host \<noteq> []" "CHR '':'' \<notin> set host"
    and path: "path \<noteq> []" "list_all (\<lambda>c. \<not> lineTerminator c) path"
    by (simp_all add: gitSshForm_def)
  have t: "take 4 url = ''git@''" and d: "drop 4 url = host @ CHR '':'' # path"
    by (simp_all add: url)
  from host(2) have tw: "takeWhile (\<lambda>c. c \<noteq> CHR '':'') (host @ CHR '':'' # path) = host"
    by (subst takeWhile_append2) auto
  from host(2) have dw: "dropWhile (\<lambda>c. c \<noteq> CHR '':'') (host @ CHR '':'' # path) = CHR '':'' # path"
    by (subst dropWhile_append2) auto
  show ?thesis
    unfolding matchSshUrl_def t d Let_def tw dw using host(1) path by simp
qed

lemma matchSshUrl_Some:
  assumes "matchSshUrl url = Some (host, path)"
  shows "gitSshForm url host path"
proof -
  let ?P = "\<lambda>c. c \<noteq> CHR '':''"
  let ?rest = "drop 4 url"
  from assms have t: "take 4 url = ''git@''"
    by (auto simp: matchSshUrl_def split: if_splits)
  with assms obtain colon where
    dw: "dropWhile ?P ?rest = colon # path" and
    h: "host = takeWhile ?P ?rest" "host \<noteq> []" and
    p: "path \<noteq> []" "list_all (\<lambda>c. \<not> lineTerminator c) path"
    by (auto simp: matchSshUrl_def Let_def split: list.splits if_splits)
  from dw have "\<not> ?P (hd (dropWhile ?P ?rest))"
    by (intro hd_dropWhile) auto
  with dw have colon: "colon = CHR '':''" by simp
  have "url = take 4 url @ ?rest" by simp
  also have "?rest = takeWhile ?P ?rest @ dropWhile ?P ?rest" by simp
  finally have "url = ''git@'' @ host @ '':'' @ path"
    using t dw h(1) colon by simp
  moreover have "CHR '':'' \<notin> set host"
    unfolding h(1) by (auto dest: set_takeWhileD)
  ultimately show ?thesis
    using h(2) p by (simp add: gitSshForm_def)
qed

lemma matchSshUrl_None:
  "matchSshUrl url = None \<longleftrightarrow> (\<forall>host path. \<not> gitSshForm url host path)"
proof
  assume n: "matchSshUrl url = None"
  show "\<forall>host path. \<not> gitSshForm url host path"
  proof (intro allI notI)
    fix host path assume "gitSshForm url host path"
    from matchSshUrl_form[OF this] n show False by simp
  qed
next
  assume a: "\<forall>host path. \<not> gitSshForm url host path"
  show "matchSshUrl url = None"
  proof (cases "matchSshUrl url")
    case None
    then show ?thesis .
  next
    case (Some hp)
    then obtain h p where "matchSshUrl url = Some (h, p)" by (cases hp) simp
    from matchSshUrl_Some[OF this] a show ?thesis by blast
  qed
qed

lemma example_work_ssh:
  "authType work_account = SSH"
  "sshHost work_account = Some ''github.com-work''"
  "sshKeyPath work_account = Some ''~/.ssh/id_work''"
  by (simp_all add: work_account_def withId_def work_fields_def)

lemma example_git_form:
  "gitSshForm ''git@github.com:alice/project.git'' ''github.com'' ''alice/project.git''"
  by (simp add: gitSshForm_def lineTerminator_def)

lemma example_shellWord: "shellWord ''git@github.com-work:alice/project.git''"
  by (simp add: shellWord_def shellLiteral_def)

lemma setRemoteUrl_word:
  "shellWord url \<Longrightarrow> remoteUrls w cwd = Some old \<Longrightarrow>
     setRemoteUrl w url cwd = (Inr (), w\<lparr>remoteUrls := (remoteUrls w)(cwd \<mapsto> url)\<rparr>)"
  by (simp add: setRemoteUrl_def)

text \<open>
  The rewritten URL goes into the command line as it is. When it is not one literal
  argument, the outcome is the one of the shell and git on that command line.
\<close>

lemma configureSSHForAccount_unquoted:
  assumes "authType account = SSH" "sshHost account = Some h" "h \<noteq> []"
    "getRemoteUrl w cwd = Some url" "gitSshForm url host path"
    "\<not> shellWord (''git@'' @ h @ '':'' @ path)"
  shows "configureSSHForAccount w account cwd =
     (case shell w (''git remote set-url origin '' @ ''git@'' @ h @ '':'' @ path) cwd (Some url) of
        Inl stderr \<Rightarrow> (Inl (GitFailed stderr), w)
      | Inr remote' \<Rightarrow> (Inr (), w\<lparr>remoteUrls := (remoteUrls w)(cwd := remote')\<rparr>))"
proof -
  from assms(5) have m: "matchSshUrl url = Some (host, path)" by (rule matchSshUrl_form)
  from assms(5) have "url \<noteq> []" by (auto simp: gitSshForm_def)
  with assms m show ?thesis
    by (simp add: configureSSHForAccount_def setRemoteUrl_def commandLine_def getRemoteUrl_def)
qed

text \<open>
  Claim C3, as amended. When the repository has no remote URL, \<open>configureSSHForAccount\<close>
  changes nothing and raises no error. When the remote URL has the form \<open>git@host:path\<close>,
  with the user \<open>git\<close>, a non-empty host without a colon and a non-empty path without a
  line terminator, the account is of the SSH type with a non-empty \<open>sshHost\<close>, and the
  rewritten URL, \<open>git@\<close>, the \<open>sshHost\<close>, a colon and the path as it was, is made of
  letters, digits and the characters \<open>@ : / . _ - +\<close> only, the rewritten URL is the new
  remote URL. A remote URL of any other form, among them \<open>user@host:path\<close> with another
  user, is left as it is without error, and so is every remote URL for an account that
  is not of the SSH type or has no \<open>sshHost\<close>.
\<close>

theorem configureSSHForAccount_spec:
  "(getRemoteUrl w cwd = None \<longrightarrow> configureSSHForAccount w account cwd = (Inr (), w)) \<and>
   (\<forall>h url host path.
      authType account = SSH \<and> sshHost account = Some h \<and> h \<noteq> [] \<and>
      getRemoteUrl w cwd = Some url \<and> gitSshForm url host path \<and>
      shellWord (''git@'' @ h @ '':'' @ path) \<longrightarrow>
      configureSSHForAccount w account cwd =
        (Inr (), w\<lparr>remoteUrls := (remoteUrls w)(cwd \<mapsto> ''git@'' @ h @ '':'' @ path)\<rparr>) \<and>
      getRemoteUrl (snd (configureSSHForAccount w account cwd)) cwd =
        Some (''git@'' @ h @ '':'' @ path)) \<and>
   (\<forall>url. getRemoteUrl w cwd = Some url \<and> (\<forall>host path. \<not> gitSshForm url host path) \<longrightarrow>
      configureSSHForAccount w account cwd = (Inr (), w)) \<and>
   (authType account \<noteq> SSH \<or> sshHost account = None \<or> sshHost account = Some [] \<longrightarrow>
      configureSSHForAccount w account cwd = (Inr (), w))"
proof (intro conjI allI impI)
  show "configureSSHForAccount w account cwd = (Inr (), w)" if "getRemoteUrl w cwd = None"
    using that by (simp add: configureSSHForAccount_def split: option.splits)
  show "configureSSHForAccount w account cwd = (Inr (), w)"
    if "authType account \<noteq> SSH \<or> sshHost account = None \<or> sshHost account = Some []"
    using that by (auto simp: configureSSHForAccount_def split: option.splits)
  show "configureSSHForAccount w account cwd = (Inr (), w)"
    if "getRemoteUrl w cwd = Some url \<and> (\<forall>host path. \<not> gitSshForm url host path)" for url
  proof -
    from that have "matchSshUrl url = None" by (simp add: matchSshUrl_None)
    with that show ?thesis
      by (simp add: configureSSHForAccount_def split: option.splits)
  qed
  fix h url host path
  assume a: "authType account = SSH \<and> sshHost account = Some h \<and> h \<noteq> [] \<and>
      getRemoteUrl w cwd = Some url \<and> gitSshForm url host path \<and>
      shellWord (''git@'' @ h @ '':'' @ path)"
  then have m: "matchSshUrl url = Some (host, path)" by (simp add: matchSshUrl_form)
  from a have u: "url \<noteq> []" by (auto simp: gitSshForm_def)
  from a have r: "remoteUrls w cwd = Some url" by (simp add: getRemoteUrl_def)
  from a have sw: "shellWord (''git@'' @ h @ '':'' @ path)" by simp
  from a m u setRemoteUrl_word[OF sw r]
  show c: "configureSSHForAccount w account cwd =
        (Inr (), w\<lparr>remoteUrls := (remoteUrls w)(cwd \<mapsto> ''git@'' @ h @ '':'' @ path)\<rparr>)"
    by (simp add: configureSSHForAccount_def)
  show "getRemoteUrl (snd (configureSSHForAccount w account cwd)) cwd =
        Some (''git@'' @ h @ '':'' @ path)"
    unfolding c by (simp add: getRemoteUrl_def)
qed

theorem configureSSHForAccount_spec_witness:
  "authType work_account = SSH \<and> sshHost work_account = Some ''github.com-work'' \<and>
   getRemoteUrl example_world_git ''/repos/app'' = Some ''git@github.com:alice/project.git'' \<and>
   gitSshForm ''git@github.com:alice/project.git'' ''github.com'' ''alice/project.git'' \<and>
   shellWord ''git@github.com-work:alice/project.git'' \<and>
   fst (configureSSHForAccount example_world_git work_account ''/repos/app'') = Inr () \<and>
   getRemoteUrl (snd (configureSSHForAccount example_world_git work_account ''/repos/app''))
     ''/repos/app'' = Some ''git@github.com-work:alice/project.git'' \<and>
   getRemoteUrl example_world_git ''/repos/lib'' = None \<and>
   configureSSHForAccount example_world_git work_account ''/repos/lib'' = (Inr (), example_world_git) \<and>
   authType personal_account \<noteq> SSH \<and>
   configureSSHForAccount example_world_git personal_account ''/repos/app'' =
     (Inr (), example_world_git)"
proof -
  have r: "getRemoteUrl example_world_git ''/repos/app'' = Some ''git@github.com:alice/project.git''"
    "getRemoteUrl example_world_git ''/repos/lib'' = None"
    by (simp_all add: getRemoteUrl_def example_world_git_def)
  have p: "authType personal_account \<noteq> SSH"
    by (simp add: personal_account_def withId_def personal_fields_def)
  have h: "authType work_account = SSH \<and> sshHost work_account = Some ''github.com-work'' \<and>
      ''github.com-work'' \<noteq> [] \<and>
      getRemoteUrl example_world_git ''/repos/app'' = Some ''git@github.com:alice/project.git'' \<and>
      gitSshForm ''git@github.com:alice/project.git'' ''github.com'' ''alice/project.git'' \<and>
      shellWord (''git@'' @ ''github.com-work'' @ '':'' @ ''alice/project.git'')"
    using r example_work_ssh example_git_form example_shellWord by simp
  note s1 = configureSSHForAccount_spec[of example_world_git "''/repos/app''" work_account]
  note s2 = configureSSHForAccount_spec[of example_world_git "''/repos/lib''" work_account]
  note s3 = configureSSHForAccount_spec[of example_world_git "''/repos/app''" personal_account]
  note s1' = s1[THEN conjunct2, THEN conjunct1, rule_format, OF h]
  from s1'[THEN conjunct1]
  have a0: "fst (configureSSHForAccount example_world_git work_account ''/repos/app'') = Inr ()"
    by simp
  from s1'[THEN conjunct2]
  have a: "getRemoteUrl (snd (configureSSHForAccount example_world_git work_account ''/repos/app''))
     ''/repos/app'' = Some ''git@github.com-work:alice/project.git''"
    by simp
  from s2[THEN conjunct1, rule_format, OF r(2)]
  have b: "configureSSHForAccount example_world_git work_account ''/repos/lib'' =
      (Inr (), example_world_git)" .
  from p s3[THEN conjunct2, THEN conjunct2, THEN conjunct2, rule_format]
  have c: "configureSSHForAccount example_world_git personal_account ''/repos/app'' =
      (Inr (), example_world_git)"
    by simp
  from h r(2) a0 a b p c example_shellWord show ?thesis
    by simp
qed

text \<open>
  The claim as stated fails for a user other than \<open>git\<close>: the remote URL
  \<open>alice@github.com:alice/project.git\<close> has the form \<open>user@host:path\<close> and is left as it
  is; the host segment is not replaced.
\<close>

theorem configureSSHForAccount_other_user_counterexample:
  "authType work_account = SSH \<and> sshHost work_account = Some ''github.com-work'' \<and>
   getRemoteUrl example_world_alice ''/repos/app'' = Some ''alice@github.com:alice/project.git'' \<and>
   configureSSHForAccount example_world_alice work_account ''/repos/app'' =
     (Inr (), example_world_alice) \<and>
   getRemoteUrl (snd (configureSSHForAccount example_world_alice work_account ''/repos/app''))
     ''/repos/app'' = Some ''alice@github.com:alice/project.git'' \<and>
   getRemoteUrl (snd (configureSSHForAccount example_world_alice work_account ''/repos/app''))
     ''/repos/app'' \<noteq> Some ''alice@github.com-work:alice/project.git''"
  by (simp add: example_work_ssh configureSSHForAccount_def getRemoteUrl_def example_world_alice_def
      matchSshUrl_def)

text \<open>
  A path with a blank: the command line is
  \<open>git remote set-url origin git@github.com-work:alice/my project.git\<close>, in which the shell
  sees two arguments after \<open>origin\<close>. In the example world the shell and git answer as git
  does, which takes the second argument for the pattern of the URL to replace.
\<close>

lemma example_blank_remote:
  "getRemoteUrl (snd (configureSSHForAccount example_world_blank work_account ''/repos/app''))
     ''/repos/app'' = Some ''git@github.com-work:alice/my''"
proof -
  have f: "gitSshForm ''git@github.com:alice/my project.git'' ''github.com'' ''alice/my project.git''"
    by (simp add: gitSshForm_def lineTerminator_def)
  have n: "\<not> shellWord (''git@'' @ ''github.com-work'' @ '':'' @ ''alice/my project.git'')"
    by (simp add: shellWord_def shellLiteral_def)
  have r: "getRemoteUrl example_world_blank ''/repos/app'' = Some ''git@github.com:alice/my project.git''"
    by (simp add: getRemoteUrl_def example_world_blank_def)
  have "''github.com-work'' \<noteq> []" by simp
  from configureSSHForAccount_unquoted[OF example_work_ssh(1,2) this r f n]
  show ?thesis
    by (simp add: example_world_blank_def getRemoteUrl_def)
qed


section \<open>The host alias in the SSH configuration\<close>

lemma linesOf_nonempty: "linesOf s \<noteq> []"
  by (induction s) (auto split: list.splits)

lemma linesOf_append_newline: "linesOf (a @ newline # b) = linesOf a @ linesOf b"
proof (induction a)
  case Nil
  then show ?case by simp
next
  case (Cons c cs)
  obtain l ls where l: "linesOf cs = l # ls"
    using linesOf_nonempty[of cs] by (cases "linesOf cs") auto
  with Cons show ?case by simp
qed

lemma linesOf_no_newline: "newline \<notin> set s \<Longrightarrow> linesOf s = [s]"
  by (induction s) auto

lemma linesOf_hd_prefix: "prefix (hd (linesOf s)) s"
proof (induction s)
  case Nil
  then show ?case by simp
next
  case (Cons c cs)
  obtain l ls where l: "linesOf cs = l # ls"
    using linesOf_nonempty[of cs] by (cases "linesOf cs") auto
  with Cons show ?case by simp
qed

lemma line_sublist: "l \<in> set (linesOf s) \<Longrightarrow> sublist l s"
proof (induction s arbitrary: l)
  case Nil
  then show ?case by simp
next
  case (Cons c cs)
  obtain l0 ls where l0: "linesOf cs = l0 # ls"
    using linesOf_nonempty[of cs] by (cases "linesOf cs") auto
  show ?case
  proof (cases "c = newline")
    case True
    with Cons.prems have "l = [] \<or> l \<in> set (linesOf cs)" by simp
    then show ?thesis
      using Cons.IH by (auto simp: sublist_Cons_right)
  next
    case False
    with Cons.prems l0 have "l = c # l0 \<or> l \<in> set ls" by simp
    then show ?thesis
    proof
      assume "l = c # l0"
      moreover have "prefix l0 cs" using linesOf_hd_prefix[of cs] l0 by simp
      ultimately show ?thesis by (simp add: sublist_Cons_right)
    next
      assume "l \<in> set ls"
      then have "l \<in> set (linesOf cs)" using l0 by simp
      from Cons.IH[OF this] show ?thesis by (simp add: sublist_Cons_right)
    qed
  qed
qed

lemma hostBlocks_not_included:
  "\<not> str_includes content (''Host '' @ h) \<Longrightarrow> hostBlocks h content = 0"
  unfolding hostBlocks_def str_includes_def
  by (auto simp: filter_empty_conv dest: line_sublist)

lemma hostBlocks_append_newline:
  "hostBlocks h (a @ newline # b) = hostBlocks h a + hostBlocks h b"
  by (simp add: hostBlocks_def linesOf_append_newline)

lemma hostBlocks_line:
  "newline \<notin> set l \<Longrightarrow> hostBlocks h l = (if l = ''Host '' @ h then 1 else 0)"
  by (simp add: hostBlocks_def linesOf_no_newline)

lemma newline_literals:
  "newline \<notin> set ''# Git Account Manager - ''"
  "newline \<notin> set ''Host ''"
  "newline \<notin> set ''    HostName github.com''"
  "newline \<notin> set ''    User git''"
  "newline \<notin> set ''    IdentityFile ''"
  "newline \<notin> set ''    IdentitiesOnly yes''"
  by (simp_all add: newline_def)

lemma generateSSHConfigEntry_ssh:
  assumes "authType account = SSH" "sshHost account = Some h" "h \<noteq> []"
    "sshKeyPath account = Some k" "k \<noteq> []"
  shows "generateSSHConfigEntry account =
     newline # (''# Git Account Manager - '' @ name account) @
     newline # (''Host '' @ h) @
     newline # ''    HostName github.com'' @
     newline # ''    User git'' @
     newline # (''    IdentityFile '' @ k) @
     newline # ''    IdentitiesOnly yes'' @
     newline # []"
  using assms by (simp add: generateSSHConfigEntry_def)

lemma hostBlocks_entry:
  assumes "authType account = SSH" "sshHost account = Some h" "h \<noteq> []"
    "sshKeyPath account = Some k" "k \<noteq> []"
    "newline \<notin> set h" "newline \<notin> set k" "newline \<notin> set (name account)"
  shows "hostBlocks h (old @ generateSSHConfigEntry account) = hostBlocks h old + 1"
proof -
  have l1: "hostBlocks h (''# Git Account Manager - '' @ name account) = 0"
    using assms(8) by (subst hostBlocks_line) (simp_all add: newline_def)
  have l2: "hostBlocks h (''Host '' @ h) = 1"
    using assms(6) by (subst hostBlocks_line) (simp_all add: newline_def)
  have l3: "hostBlocks h ''    HostName github.com'' = 0"
    by (subst hostBlocks_line) (simp_all add: newline_def)
  have l4: "hostBlocks h ''    User git'' = 0"
    by (subst hostBlocks_line) (simp_all add: newline_def)
  have l5: "hostBlocks h (''    IdentityFile '' @ k) = 0"
    using assms(7) by (subst hostBlocks_line) (simp_all add: newline_def)
  have l6: "hostBlocks h ''    IdentitiesOnly yes'' = 0"
    by (subst hostBlocks_line) (simp_all add: newline_def)
  have l7: "hostBlocks h [] = 0"
    by (simp add: hostBlocks_def)
  show ?thesis
    unfolding generateSSHConfigEntry_ssh[OF assms(1-5)] hostBlocks_append_newline
    by (simp only: l1 l2 l3 l4 l5 l6 l7)
qed

lemma entry_includes_host:
  assumes "authType account = SSH" "sshHost account = Some h" "h \<noteq> []"
    "sshKeyPath account = Some k" "k \<noteq> []"
  shows "str_includes (old @ generateSSHConfigEntry account) (''Host '' @ h)"
proof -
  have "old @ generateSSHConfigEntry account =
     (old @ newline # (''# Git Account Manager - '' @ name account) @ [newline]) @ (''Host '' @ h) @
     (newline # ''    HostName github.com'' @
      newline # ''    User git'' @
      newline # (''    IdentityFile '' @ k) @
      newline # ''    IdentitiesOnly yes'' @
      newline # [])"
    unfolding generateSSHConfigEntry_ssh[OF assms] by simp
  then show ?thesis
    unfolding str_includes_def by (simp only: sublist_appendI)
qed

lemma entry_nonempty:
  assumes "authType account = SSH" "sshHost account = Some h" "h \<noteq> []"
    "sshKeyPath account = Some k" "k \<noteq> []"
  shows "generateSSHConfigEntry account \<noteq> []"
  unfolding generateSSHConfigEntry_ssh[OF assms] by simp

lemma entry_empty:
  "sshKeyPath account = None \<or> sshKeyPath account = Some [] \<Longrightarrow> generateSSHConfigEntry account = []"
  by (auto simp: generateSSHConfigEntry_def split: option.splits)

lemma add_configured:
  "sshHost account = Some h \<Longrightarrow> isSSHHostConfigured fs h \<Longrightarrow> addSSHConfigEntry fs account = fs"
  by (simp add: addSSHConfigEntry_def Let_def)

lemma add_fresh:
  assumes "authType account = SSH" "sshHost account = Some h" "h \<noteq> []"
    "sshKeyPath account = Some k" "k \<noteq> []" "\<not> isSSHHostConfigured fs h"
  shows "addSSHConfigEntry fs account =
     fs\<lparr>sshDirExists := True, sshConfigFile := Some (configText fs @ generateSSHConfigEntry account)\<rparr>"
  using assms entry_nonempty[OF assms(1-5)]
  by (simp add: addSSHConfigEntry_def Let_def appendFile_def configText_def)

lemma add_not_eligible:
  assumes "authType account \<noteq> SSH \<or> sshHost account = None \<or> sshHost account = Some [] \<or>
    sshKeyPath account = None \<or> sshKeyPath account = Some []"
  shows "addSSHConfigEntry fs account = fs"
  using assms entry_empty[of account]
  by (auto simp: addSSHConfigEntry_def Let_def split: option.splits)

lemma add_then_configured:
  assumes "authType account = SSH" "sshHost account = Some h" "h \<noteq> []"
    "sshKeyPath account = Some k" "k \<noteq> []"
  shows "isSSHHostConfigured (addSSHConfigEntry fs account) h"
proof (cases "isSSHHostConfigured fs h")
  case True
  with add_configured[OF assms(2) True] show ?thesis by simp
next
  case False
  show ?thesis
    unfolding add_fresh[OF assms False]
    using entry_includes_host[OF assms, of "configText fs"]
    by (simp add: isSSHHostConfigured_def)
qed

lemma eligible_cases:
  obtains (no) "authType account \<noteq> SSH \<or> sshHost account = None \<or> sshHost account = Some [] \<or>
      sshKeyPath account = None \<or> sshKeyPath account = Some []"
  | (yes) h k where "authType account = SSH" "sshHost account = Some h" "h \<noteq> []"
      "sshKeyPath account = Some k" "k \<noteq> []"
  by (cases "sshHost account"; cases "sshKeyPath account") auto

lemma add_idempotent:
  "addSSHConfigEntry (addSSHConfigEntry fs account) account = addSSHConfigEntry fs account"
proof (cases account rule: eligible_cases)
  case no
  then show ?thesis by (simp add: add_not_eligible)
next
  case (yes h k)
  from add_then_configured[OF yes] add_configured[OF yes(2)] show ?thesis
    by simp
qed

lemma add_appends:
  "\<exists>rest. configText (addSSHConfigEntry fs account) = configText fs @ rest \<and>
     (sshConfigFile fs \<noteq> None \<longrightarrow> sshConfigFile (addSSHConfigEntry fs account) \<noteq> None)"
proof (cases account rule: eligible_cases)
  case no
  then show ?thesis by (simp add: add_not_eligible)
next
  case (yes h k)
  show ?thesis
  proof (cases "isSSHHostConfigured fs h")
    case True
    with add_configured[OF yes(2) True] show ?thesis by simp
  next
    case False
    show ?thesis
      unfolding add_fresh[OF yes False] by (simp add: configText_def)
  qed
qed

text \<open>
  What holds of \<open>addSSHConfigEntry\<close>: a second call in succession changes nothing, and a
  call only appends. For an account of the SSH type with a host alias and a key path,
  the test of \<open>isSSHHostConfigured\<close> succeeds after the call; when it succeeded before, the
  call changes nothing; when it did not, two calls in succession append the generated
  entry once, and the configuration then has exactly one line that reads \<open>Host\<close>
  followed by the alias (alias, key path and name being single lines).
\<close>

lemma addSSHConfigEntry_twice:
  "addSSHConfigEntry (addSSHConfigEntry fs account) account = addSSHConfigEntry fs account \<and>
   (\<exists>rest. configText (addSSHConfigEntry fs account) = configText fs @ rest) \<and>
   (sshConfigFile fs \<noteq> None \<longrightarrow> sshConfigFile (addSSHConfigEntry fs account) \<noteq> None) \<and>
   (\<forall>h k. authType account = SSH \<and> sshHost account = Some h \<and> h \<noteq> [] \<and>
      sshKeyPath account = Some k \<and> k \<noteq> [] \<longrightarrow>
      isSSHHostConfigured (addSSHConfigEntry fs account) h \<and>
      (isSSHHostConfigured fs h \<longrightarrow> addSSHConfigEntry fs account = fs) \<and>
      (\<not> isSSHHostConfigured fs h \<longrightarrow>
         configText (addSSHConfigEntry (addSSHConfigEntry fs account) account) =
           configText fs @ generateSSHConfigEntry account \<and>
         (newline \<notin> set h \<and> newline \<notin> set k \<and> newline \<notin> set (name account) \<longrightarrow>
            hostBlocks h (configText (addSSHConfigEntry (addSSHConfigEntry fs account) account)) = 1)))"
proof (intro conjI allI impI)
  show "addSSHConfigEntry (addSSHConfigEntry fs account) account = addSSHConfigEntry fs account"
    by (rule add_idempotent)
  show "\<exists>rest. configText (addSSHConfigEntry fs account) = configText fs @ rest"
    using add_appends[of fs account] by blast
  show "sshConfigFile (addSSHConfigEntry fs account) \<noteq> None" if "sshConfigFile fs \<noteq> None"
    using add_appends[of fs account] that by blast
next
  fix h k
  assume e: "authType account = SSH \<and> sshHost account = Some h \<and> h \<noteq> [] \<and>
      sshKeyPath account = Some k \<and> k \<noteq> []"
  then have y: "authType account = SSH" "sshHost account = Some h" "h \<noteq> []"
    "sshKeyPath account = Some k" "k \<noteq> []"
    by simp_all
  show "isSSHHostConfigured (addSSHConfigEntry fs account) h"
    by (rule add_then_configured[OF y])
  show "addSSHConfigEntry fs account = fs" if "isSSHHostConfigured fs h"
    using add_configured[OF y(2) that] .
  show t: "configText (addSSHConfigEntry (addSSHConfigEntry fs account) account) =
           configText fs @ generateSSHConfigEntry account"
    if f: "\<not> isSSHHostConfigured fs h"
  proof -
    have "configText (addSSHConfigEntry fs account) = configText fs @ generateSSHConfigEntry account"
      unfolding add_fresh[OF y f] by (simp add: configText_def)
    then show ?thesis
      by (simp only: add_idempotent)
  qed
  show "hostBlocks h (configText (addSSHConfigEntry (addSSHConfigEntry fs account) account)) = 1"
    if f: "\<not> isSSHHostConfigured fs h"
      and n: "newline \<notin> set h \<and> newline \<notin> set k \<and> newline \<notin> set (name account)"
  proof -
    from f have "\<not> str_includes (configText fs) (''Host '' @ h)"
      by (auto simp: isSSHHostConfigured_def configText_def str_includes_def split: option.splits)
    then have "hostBlocks h (configText fs) = 0"
      by (rule hostBlocks_not_included)
    with hostBlocks_entry[OF y, of "configText fs"] n t[OF f] show ?thesis
      by simp
  qed
qed

text \<open>
  Claim C5. The claim says that for every account of the SSH type with a key path two
  calls in succession leave exactly one \<open>Host\<close> block for the alias of the account in the
  SSH configuration. \<open>isSSHHostConfigured\<close> looks for the text \<open>Host\<close> followed by the alias
  anywhere in the file. In a configuration that declares the host \<open>github.com-work-old\<close>
  it finds the alias \<open>github.com-work\<close>, although no line declares it; both calls append
  nothing, and the configuration has no \<open>Host\<close> line for the alias before and after.
\<close>

theorem addSSHConfigEntry_false_positive:
  "authType work_account = SSH \<and> sshHost work_account = Some ''github.com-work'' \<and>
   sshKeyPath work_account = Some ''~/.ssh/id_work'' \<and>
   hostBlocks ''github.com-work'' (configText example_ssh_old) = 0 \<and>
   isSSHHostConfigured example_ssh_old ''github.com-work'' \<and>
   addSSHConfigEntry example_ssh_old work_account = example_ssh_old \<and>
   addSSHConfigEntry (addSSHConfigEntry example_ssh_old work_account) work_account = example_ssh_old \<and>
   hostBlocks ''github.com-work''
     (configText (addSSHConfigEntry (addSSHConfigEntry example_ssh_old work_account) work_account)) = 0"
proof -
  have c: "isSSHHostConfigured example_ssh_old ''github.com-work''"
    by (simp add: isSSHHostConfigured_def example_ssh_old_def str_includes_def sublist_Cons_right)
  have a: "addSSHConfigEntry example_ssh_old work_account = example_ssh_old"
    using add_configured[OF example_work_ssh(2) c] .
  have h: "hostBlocks ''github.com-work'' (configText example_ssh_old) = 0"
    by (simp add: hostBlocks_def configText_def example_ssh_old_def newline_def)
  from c a h example_work_ssh show ?thesis
    by simp
qed

text \<open>So the number of \<open>Host\<close> lines for the alias after the two calls is not one.\<close>

theorem addSSHConfigEntry_false_positive_witness:
  "isSSHHostConfigured example_ssh_old ''github.com-work'' \<and>
   hostBlocks ''github.com-work''
     (configText (addSSHConfigEntry (addSSHConfigEntry example_ssh_old work_account) work_account)) \<noteq> 1"
  using addSSHConfigEntry_false_positive by simp


end
